theory Spec2Isabelle
  imports Complex_Main "HOL-Library.Sublist" "HOL-Library.AList" "HOL-Library.Log_Nat"
begin

section \<open>JavaScript values used by the data worker\<close>

text \<open>
  Strings are lists of code units. A \<^typ>\<open>char\<close> stands for a code unit below 256
  (U+0000 to U+00FF); on such strings \<open>toLowerCase\<close>, \<open>trim\<close>, \<open>includes\<close>,
  \<open>replace\<close> and the regular expression \<^verbatim>\<open>/^\d{4}$/\<close> are modelled exactly.
\<close>

definition toLowerCaseChar :: "char \<Rightarrow> char" where
  "toLowerCaseChar c =
     (let n = (of_char c :: nat)
      in if (65 \<le> n \<and> n \<le> 90) \<or> (192 \<le> n \<and> n \<le> 222 \<and> n \<noteq> 215)
         then char_of (n + 32) else c)"

definition toLowerCase :: "string \<Rightarrow> string" where
  "toLowerCase s = map toLowerCaseChar s"

text \<open>\<^verbatim>\<open>s.includes(k)\<close>: \<open>k\<close> occurs in \<open>s\<close> as a contiguous run.\<close>

fun str_includes :: "string \<Rightarrow> string \<Rightarrow> bool" where
  "str_includes [] k = (k = [])"
| "str_includes (c # cs) k = (prefix k (c # cs) \<or> str_includes cs k)"

text \<open>\<^verbatim>\<open>s.replace(k, r)\<close> with a string pattern: the first occurrence only.\<close>

fun str_replace :: "string \<Rightarrow> string \<Rightarrow> string \<Rightarrow> string" where
  "str_replace [] k r = (if k = [] then r else [])"
| "str_replace (c # cs) k r =
     (if prefix k (c # cs) then r @ drop (length k) (c # cs)
      else c # str_replace cs k r)"

text \<open>White space and line terminators below U+0100, as \<open>trim\<close> and \<open>parseFloat\<close> strip them.\<close>

definition isWhiteSpace :: "char \<Rightarrow> bool" where
  "isWhiteSpace c = ((of_char c :: nat) \<in> {9, 10, 11, 12, 13, 32, 160})"

definition trimStart :: "string \<Rightarrow> string" where
  "trimStart s = dropWhile isWhiteSpace s"

definition trim :: "string \<Rightarrow> string" where
  "trim s = rev (dropWhile isWhiteSpace (rev (dropWhile isWhiteSpace s)))"

definition isDigit :: "char \<Rightarrow> bool" where
  "isDigit c = (48 \<le> (of_char c :: nat) \<and> (of_char c :: nat) \<le> 57)"

text \<open>\<^verbatim>\<open>key.match(/^\d{4}$/)\<close>: the whole key is four decimal digits.\<close>

definition isYearKey :: "string \<Rightarrow> bool" where
  "isYearKey k = (length k = 4 \<and> list_all isDigit k)"

fun digitsOfNat :: "nat \<Rightarrow> string" where
  "digitsOfNat n =
     (if n < 10 then [char_of (48 + n)]
      else digitsOfNat (n div 10) @ [char_of (48 + n mod 10)])"

declare digitsOfNat.simps [simp del]

subsection \<open>Numbers\<close>

text \<open>
  A number is \<open>NaN\<close>, an infinity, or finite; a finite number is held by its exact
  value. The sign of zero is not modelled.
\<close>

datatype jsnum = NaN | PosInfinity | NegInfinity | Finite rat

fun isNaN :: "jsnum \<Rightarrow> bool" where
  "isNaN NaN = True"
| "isNaN _ = False"

fun isFinite :: "jsnum \<Rightarrow> bool" where
  "isFinite (Finite _) = True"
| "isFinite _ = False"

subsection \<open>Decoded values\<close>

text \<open>
  The values the decoders put in a table row and in a feature's attribute bag. The
  table decoder is called with \<^verbatim>\<open>dynamicTyping: false\<close>, so a cell is a string (or
  missing); the tests also feed \<^verbatim>\<open>null\<close>. The attribute decoder gives \<^verbatim>\<open>null\<close>,
  strings, numbers, booleans and dates. \<^verbatim>\<open>String()\<close> converts every one of them.
  The engine's formatting of numbers and dates is not modelled: \<open>JNum n s\<close> is the
  number \<open>n\<close> together with the text \<open>s\<close> that \<^verbatim>\<open>String()\<close> gives for it, and
  \<open>JObj s\<close> is an object (a date, an array) that \<^verbatim>\<open>String()\<close> converts to \<open>s\<close>.
\<close>

datatype jsval = JUndefined | JNull | JBool bool | JNum jsnum string | JStr string | JObj string

fun truthy :: "jsval \<Rightarrow> bool" where
  "truthy JUndefined = False"
| "truthy JNull = False"
| "truthy (JBool b) = b"
| "truthy (JNum n s) = (n \<noteq> NaN \<and> n \<noteq> Finite 0)"
| "truthy (JStr s) = (s \<noteq> [])"
| "truthy (JObj s) = True"

text \<open>\<^verbatim>\<open>String(v)\<close>.\<close>

fun toString :: "jsval \<Rightarrow> string" where
  "toString JUndefined = ''undefined''"
| "toString JNull = ''null''"
| "toString (JBool b) = (if b then ''true'' else ''false'')"
| "toString (JNum n s) = s"
| "toString (JStr s) = s"
| "toString (JObj s) = s"

text \<open>An object with string keys: own properties in order; a missing key reads \<^verbatim>\<open>undefined\<close>.\<close>

type_synonym obj = "(string \<times> jsval) list"

definition getProp :: "obj \<Rightarrow> string \<Rightarrow> jsval" where
  "getProp ob k = (case map_of ob k of None \<Rightarrow> JUndefined | Some v \<Rightarrow> v)"

text \<open>
  The keys a \<^verbatim>\<open>for (const key in row)\<close> loop visits: each own key once. The order
  in which the engine enumerates keys is not modelled (the list's order stands for it);
  a mapping built by such a loop is read through \<^const>\<open>map_of\<close>.
\<close>

definition ownKeys :: "obj \<Rightarrow> string list" where
  "ownKeys ob = remdups (map fst ob)"

subsection \<open>\<open>parseFloat\<close>\<close>

definition digitsValue :: "string \<Rightarrow> int" where
  "digitsValue ds = foldl (\<lambda>a c. 10 * a + ((of_char c :: int) - 48)) 0 ds"

text \<open>
  The double nearest to a non-negative value, ties to the even mantissa: the value is
  a multiple of \<open>2 ^ (e - 52)\<close>, where \<open>2 ^ e\<close> is the largest power of two below it
  (and \<open>e\<close> is at least \<open>-1022\<close>, the subnormal range); what rounds to \<open>2 ^ 1024\<close> or
  more is the infinity. (The engine may drop digits after the twentieth significant
  one of a decimal text; that is not modelled.)
\<close>

definition pow2 :: "int \<Rightarrow> rat" where
  "pow2 n = (if 0 \<le> n then 2 ^ nat n else 1 / 2 ^ nat (- n))"

definition floorLog2 :: "rat \<Rightarrow> int" where
  "floorLog2 v =
     (case quotient_of v of (p, q) \<Rightarrow>
        let d = bitlen p - bitlen q in if pow2 d \<le> v then d else d - 1)"

definition roundMV :: "rat \<Rightarrow> jsnum" where
  "roundMV v =
     (if v = 0 then Finite 0
      else
        let e = floorLog2 v
        in if 1024 \<le> e then PosInfinity
           else
             let q = pow2 (max e (- 1022) - 52);
                 n = v / q;
                 fl = \<lfloor>n\<rfloor>;
                 fr = n - of_int fl;
                 r = (if fr < 1 / 2 then fl
                      else if 1 / 2 < fr then fl + 1
                      else if even fl then fl else fl + 1)
             in if e = 1023 \<and> 2 ^ 53 \<le> r then PosInfinity else Finite (of_int r * q))"

text \<open>
  The exponent part after the mantissa: \<open>e\<close> or \<open>E\<close>, an optional sign and at least one
  digit; anything else is not part of the number and counts as exponent \<open>0\<close>.
\<close>

definition exponentPart :: "string \<Rightarrow> int" where
  "exponentPart s =
     (case s of
        [] \<Rightarrow> 0
      | c # r \<Rightarrow>
          if c = CHR ''e'' \<or> c = CHR ''E'' then
            (case r of
               [] \<Rightarrow> 0
             | d # r' \<Rightarrow>
                 if d = CHR ''-'' then - digitsValue (takeWhile isDigit r')
                 else if d = CHR ''+'' then digitsValue (takeWhile isDigit r')
                 else digitsValue (takeWhile isDigit r))
          else 0)"

definition scale10 :: "int \<Rightarrow> int \<Rightarrow> rat" where
  "scale10 m e = (if 0 \<le> e then of_int m * 10 ^ nat e else of_int m / 10 ^ nat (- e))"

text \<open>
  The unsigned part (\<open>StrUnsignedDecimalLiteral\<close>): \<open>Infinity\<close>, or digits with an
  optional fraction and exponent; the longest prefix that is one is read, and
  \<open>NaN\<close> is the result when there is none.
\<close>

definition parseUnsigned :: "string \<Rightarrow> jsnum" where
  "parseUnsigned s =
     (if prefix ''Infinity'' s then PosInfinity
      else
        let ip = takeWhile isDigit s;
            r1 = dropWhile isDigit s;
            dot = (r1 \<noteq> [] \<and> hd r1 = CHR ''.'');
            fp = (if dot then takeWhile isDigit (tl r1) else []);
            r2 = (if dot then dropWhile isDigit (tl r1) else r1)
        in if ip = [] \<and> fp = [] then NaN
           else roundMV (scale10 (digitsValue (ip @ fp)) (exponentPart r2 - int (length fp))))"

fun negate :: "jsnum \<Rightarrow> jsnum" where
  "negate NaN = NaN"
| "negate PosInfinity = NegInfinity"
| "negate NegInfinity = PosInfinity"
| "negate (Finite v) = Finite (- v)"

definition parseFloat :: "string \<Rightarrow> jsnum" where
  "parseFloat s =
     (case trimStart s of
        [] \<Rightarrow> NaN
      | c # r \<Rightarrow>
          if c = CHR ''-'' then negate (parseUnsigned r)
          else if c = CHR ''+'' then parseUnsigned r
          else parseUnsigned (c # r))"

section \<open>The data worker (\<^verbatim>\<open>src/data/data.worker.ts\<close>)\<close>

datatype ftype = River | Canal | Weir

fun typeName :: "ftype \<Rightarrow> string" where
  "typeName River = ''river''"
| "typeName Canal = ''canal''"
| "typeName Weir = ''weir''"

datatype js_error = Error string | TypeError string

text \<open>
  A value of type \<^verbatim>\<open>unknown\<close>, as the attribute mapping of \<^verbatim>\<open>getFeatureType\<close> is
  declared to hold: a value that \<^verbatim>\<open>String()\<close> converts, or an object whose conversion
  throws (one without \<^verbatim>\<open>toString\<close> and \<^verbatim>\<open>valueOf\<close>, or whose \<^verbatim>\<open>toString\<close>
  throws), with the error thrown.
\<close>

datatype unknown = Convertible jsval | Unconvertible js_error

fun truthyUnknown :: "unknown \<Rightarrow> bool" where
  "truthyUnknown (Convertible v) = truthy v"
| "truthyUnknown (Unconvertible err) = True"

fun stringOfUnknown :: "unknown \<Rightarrow> js_error + string" where
  "stringOfUnknown (Convertible v) = Inr (toString v)"
| "stringOfUnknown (Unconvertible err) = Inl err"

definition getUnknown :: "(string \<times> unknown) list \<Rightarrow> string \<Rightarrow> unknown" where
  "getUnknown ob k = (case map_of ob k of None \<Rightarrow> Convertible JUndefined | Some v \<Rightarrow> v)"

text \<open>
  \<^verbatim>\<open>getFeatureType(filePath, properties)\<close>, with \<open>Inl\<close> for a throw. The inner test
  on \<^verbatim>\<open>properties.TYPE\<close> is kept as the source has it: both of its branches return
  \<^verbatim>\<open>'weir'\<close>, and \<^verbatim>\<open>String(properties.TYPE)\<close> is evaluated when the value is truthy.
\<close>

definition getFeatureType :: "string \<Rightarrow> (string \<times> unknown) list \<Rightarrow> js_error + ftype" where
  "getFeatureType filePath properties =
     (let lowerFilePath = toLowerCase filePath
      in if str_includes lowerFilePath ''point'' \<or> str_includes lowerFilePath ''weir'' then
           (if truthyUnknown (getUnknown properties ''TYPE'') then
              (case stringOfUnknown (getUnknown properties ''TYPE'') of
                 Inl err \<Rightarrow> Inl err
               | Inr s \<Rightarrow> if toLowerCase s = ''weir'' then Inr Weir else Inr Weir)
            else Inr Weir)
         else if str_includes lowerFilePath ''canal'' then Inr Canal
         else if str_includes lowerFilePath ''river'' then Inr River
         else Inr Canal)"

text \<open>
  The call of \<^verbatim>\<open>getFeatureType\<close> inside the worker (line 141) passes the attribute bag
  of a decoded feature. Every value of such a bag converts, so the call cannot throw
  there; this is the function on decoded bags, and \<open>getFeatureType_decoded\<close> below
  shows that it is \<^verbatim>\<open>getFeatureType\<close> on them.
\<close>

definition getFeatureTypeDecoded :: "string \<Rightarrow> obj \<Rightarrow> ftype" where
  "getFeatureTypeDecoded filePath properties =
     (let lowerFilePath = toLowerCase filePath
      in if str_includes lowerFilePath ''point'' \<or> str_includes lowerFilePath ''weir'' then
           (if truthy (getProp properties ''TYPE'')
               \<and> toLowerCase (toString (getProp properties ''TYPE'')) = ''weir''
            then Weir
            else Weir)
         else if str_includes lowerFilePath ''canal'' then Canal
         else if str_includes lowerFilePath ''river'' then River
         else Canal)"

type_synonym flows = "(string \<times> jsnum) list"

type_synonym position = "jsnum list"

datatype geometry =
    Point position
  | MultiPoint "position list"
  | LineString "position list"
  | MultiLineString "position list list"
  | Polygon "position list list"
  | MultiPolygon "position list list list"
  | GeometryCollection "geometry list"

fun geometryType :: "geometry \<Rightarrow> string" where
  "geometryType (Point _) = ''Point''"
| "geometryType (MultiPoint _) = ''MultiPoint''"
| "geometryType (LineString _) = ''LineString''"
| "geometryType (MultiLineString _) = ''MultiLineString''"
| "geometryType (Polygon _) = ''Polygon''"
| "geometryType (MultiPolygon _) = ''MultiPolygon''"
| "geometryType (GeometryCollection _) = ''GeometryCollection''"

text \<open>A decoded feature: its geometry and its attribute bag, either of which may be \<^verbatim>\<open>null\<close>.\<close>

record rawFeature =
  geometry :: "geometry option"
  properties :: "obj option"

record flowProperties =
  p_name :: string
  p_type :: ftype
  p_flows :: flows

record flowFeature =
  f_id :: string
  f_geometry :: geometry
  f_properties :: flowProperties

datatype papaError = PapaError string string string nat

datatype level = Log | Warn | Err

datatype consoleArg =
    NoArg
  | ArgNum nat
  | ArgRow obj
  | ArgProps "obj option"
  | ArgErrors "papaError list"
  | ArgError js_error

text \<open>A console line: its level, its message and the value printed after it, if any.\<close>

datatype consoleEntry = Console level string consoleArg

type_synonym buffer = "nat list"

record response =
  r_ok :: bool
  r_statusText :: string
  r_text :: "js_error + string"
  r_arrayBuffer :: "js_error + buffer"

record parseResult =
  data :: "obj list"
  errors :: "papaError list"

text \<open>
  What the worker reads from outside: \<^verbatim>\<open>fetch\<close> (a rejection is \<open>Inl\<close>), the table
  decoder \<^verbatim>\<open>Papa.parse\<close> (it reports errors in its result) and the geometry decoder
  \<^verbatim>\<open>shapefile.read\<close> (a rejection is \<open>Inl\<close>; otherwise the features of the collection).
  The two fetches of a source run together; \<open>shpSettlesFirst\<close> tells, for the path of a
  source, whether the fetch of the geometry file settles before that of the attribute
  file.
\<close>

record env =
  fetch :: "string \<Rightarrow> js_error + response"
  papaParse :: "string \<Rightarrow> parseResult"
  shapefileRead :: "buffer \<Rightarrow> buffer \<Rightarrow> js_error + rawFeature list"
  shpSettlesFirst :: "string \<Rightarrow> bool"

record shapefileConfig =
  path :: string
  typeOverride :: "ftype option"

subsection \<open>The flow table\<close>

text \<open>The loop over the keys of one row that fills \<^verbatim>\<open>flows\<close>.\<close>

definition rowFlows :: "obj \<Rightarrow> flows" where
  "rowFlows row =
     foldl (\<lambda>flows key.
              if isYearKey key then
                (let flowVal = parseFloat (toString (getProp row key))
                 in AList.update key (if isNaN flowVal then Finite 0 else flowVal) flows)
              else flows)
       [] (ownKeys row)"

type_synonym flowDataMap = "(string \<times> flows) list"

text \<open>
  The body of \<^verbatim>\<open>parseResult.data.forEach\<close> on one row: the console lines it
  writes, with the map after it or the error thrown. \<^verbatim>\<open>row.MapID.trim()\<close> on a truthy
  value that is not a string throws.
\<close>

definition processRow :: "flowDataMap \<Rightarrow> obj \<Rightarrow> consoleEntry list \<times> (js_error + flowDataMap)" where
  "processRow flowDataMap row =
     (if \<not> truthy (getProp row ''MapID'') then
        ([Console Warn ''Worker: Skipping CSV row with missing MapID:'' (ArgRow row)],
         Inr flowDataMap)
      else
        (let flows = rowFlows row
         in case getProp row ''MapID'' of
              JStr mapID \<Rightarrow> ([], Inr (AList.update (trim mapID) flows flowDataMap))
            | _ \<Rightarrow> ([], Inl (TypeError ''row.MapID.trim is not a function''))))"

fun processRows :: "flowDataMap \<Rightarrow> consoleEntry list \<Rightarrow> obj list
    \<Rightarrow> consoleEntry list \<times> (js_error + flowDataMap)" where
  "processRows flowDataMap console [] = (console, Inr flowDataMap)"
| "processRows flowDataMap console (row # rows) =
     (case processRow flowDataMap row of
        (c, Inl err) \<Rightarrow> (console @ c, Inl err)
      | (c, Inr flowDataMap') \<Rightarrow> processRows flowDataMap' (console @ c) rows)"

text \<open>
  Lines 69 to 89: from the decoder's result to the map, with the console lines written.
\<close>

definition buildFlowDataMap :: "parseResult \<Rightarrow> consoleEntry list \<times> (js_error + flowDataMap)" where
  "buildFlowDataMap parseResult =
     (let c1 = [Console Log (''Worker: CSV parsed. Rows: ''
                   @ digitsOfNat (length (data parseResult))) NoArg];
          c2 = (if length (errors parseResult) > 0
                then c1 @ [Console Warn ''Worker: Errors during CSV parsing:''
                             (ArgErrors (errors parseResult))]
                else c1)
      in case processRows [] c2 (data parseResult) of
           (c3, Inl err) \<Rightarrow> (c3, Inl err)
         | (c3, Inr flowDataMap) \<Rightarrow>
             (c3 @ [Console Log (''Worker: Flow data map created. Entries: ''
                      @ digitsOfNat (length flowDataMap)) NoArg],
              Inr flowDataMap))"

text \<open>
  Step 1 of \<^verbatim>\<open>fetchAndProcessDataForAllSources\<close>: fetch the table, decode it, build the
  map. The result is the console lines written, with the error thrown or the map.
\<close>

definition loadFlowData :: "env \<Rightarrow> string \<Rightarrow> consoleEntry list \<times> (js_error + flowDataMap)" where
  "loadFlowData e csvFilePath =
     (let c0 = [Console Log ''Worker: Starting data load for testing...'' NoArg]
      in case fetch e csvFilePath of
           Inl err \<Rightarrow> (c0, Inl err)
         | Inr csvResponse \<Rightarrow>
             if \<not> r_ok csvResponse then
               (c0, Inl (Error (''Failed to fetch CSV: '' @ r_statusText csvResponse)))
             else
               (case r_text csvResponse of
                  Inl err \<Rightarrow> (c0, Inl err)
                | Inr csvText \<Rightarrow>
                    (case buildFlowDataMap (papaParse e csvText) of
                       (c, r) \<Rightarrow> (c0 @ c, r))))"

subsection \<open>One geometry feature\<close>

text \<open>
  The alias loops: the value of the first key of the list that the attribute bag holds
  with a truthy value (\<^verbatim>\<open>feature.properties && feature.properties[key]\<close>).
\<close>

fun firstTruthy :: "obj option \<Rightarrow> string list \<Rightarrow> jsval option" where
  "firstTruthy props [] = None"
| "firstTruthy props (key # keys) =
     (case props of
        None \<Rightarrow> firstTruthy props keys
      | Some ps \<Rightarrow>
          if truthy (getProp ps key) then Some (getProp ps key)
          else firstTruthy props keys)"

definition mapIdPropertyKeys :: "string list" where
  "mapIdPropertyKeys = [''MAPID'', ''MapID'', ''mapid'', ''SiteID'', ''SITEID'']"

definition namePropertyKeys :: "string list" where
  "namePropertyKeys = [''NAME'', ''Name'', ''SiteName'', ''GNIS_Name'']"

text \<open>\<^verbatim>\<open>mapId\<close> after the loop: \<open>None\<close> is \<^verbatim>\<open>undefined\<close>.\<close>

definition resolveMapId :: "obj option \<Rightarrow> string option" where
  "resolveMapId props = map_option (\<lambda>v. trim (toString v)) (firstTruthy props mapIdPropertyKeys)"

definition resolveName :: "obj option \<Rightarrow> string" where
  "resolveName props =
     (case firstTruthy props namePropertyKeys of None \<Rightarrow> ''Unknown'' | Some v \<Rightarrow> toString v)"

text \<open>\<^verbatim>\<open>typeOverride || getFeatureType(path, feature.properties || {})\<close>.\<close>

definition featureTypeOf :: "string \<Rightarrow> ftype option \<Rightarrow> obj option \<Rightarrow> ftype" where
  "featureTypeOf pth ov props =
     (case ov of
        Some t \<Rightarrow> t
      | None \<Rightarrow> getFeatureTypeDecoded pth (case props of None \<Rightarrow> [] | Some ps \<Rightarrow> ps))"

text \<open>
  The geometry branch of the feature callback (lines 144 to 173): the outcome for a
  geometry is the geometry pushed, or the reason for skipping.
\<close>

datatype normalized = Pushed geometry | NoCoordinates | Unsupported

definition normalizeGeometry :: "geometry option \<Rightarrow> normalized" where
  "normalizeGeometry g =
     (case g of
        Some (LineString cs) \<Rightarrow> Pushed (LineString cs)
      | Some (Point c) \<Rightarrow> Pushed (Point c)
      | Some (MultiLineString parts) \<Rightarrow>
          (if length parts > 0 then Pushed (LineString (hd parts)) else NoCoordinates)
      | _ \<Rightarrow> Unsupported)"

text \<open>\<^verbatim>\<open>${feature.geometry?.type}\<close> in a message.\<close>

definition geometryTypeText :: "geometry option \<Rightarrow> string" where
  "geometryTypeText g = (case g of None \<Rightarrow> ''undefined'' | Some g' \<Rightarrow> geometryType g')"

definition warnMissingMapId :: "string \<Rightarrow> obj option \<Rightarrow> consoleEntry" where
  "warnMissingMapId pth props =
     Console Warn (''Worker: Feature in '' @ pth @ '' missing MapID. Properties:'') (ArgProps props)"

definition warnNoFlowData :: "string \<Rightarrow> string \<Rightarrow> consoleEntry" where
  "warnNoFlowData mapId pth =
     Console Warn (''Worker: No flow data found for MapID '' @ mapId @ '' from '' @ pth
                   @ ''. Assigning empty flows.'') NoArg"

definition warnNoCoordinates :: "string \<Rightarrow> consoleEntry" where
  "warnNoCoordinates mapId =
     Console Warn (''Worker: MultiLineString feature for MapID '' @ mapId
                   @ '' has no coordinates. Skipping.'') NoArg"

definition warnUnsupported :: "string \<Rightarrow> geometry option \<Rightarrow> consoleEntry" where
  "warnUnsupported mapId g =
     Console Warn (''Worker: Feature for MapID '' @ mapId @ '' has unsupported geometry type: ''
                   @ geometryTypeText g @ ''. Skipping.'') NoArg"

text \<open>
  The callback of \<^verbatim>\<open>geojson.features.forEach\<close> on one feature: the features pushed
  to \<^verbatim>\<open>allFeatures\<close> (none or one) and the console lines written.
\<close>

definition processFeature :: "flowDataMap \<Rightarrow> string \<Rightarrow> ftype option \<Rightarrow> rawFeature
    \<Rightarrow> flowFeature list \<times> consoleEntry list" where
  "processFeature flowDataMap pth ov feature =
     (case resolveMapId (properties feature) of
        None \<Rightarrow> ([], [warnMissingMapId pth (properties feature)])
      | Some mapId \<Rightarrow>
          if mapId = [] then ([], [warnMissingMapId pth (properties feature)])
          else
            (let sectionFlows = map_of flowDataMap mapId;
                 c1 = (if sectionFlows = None then [warnNoFlowData mapId pth] else []);
                 name = resolveName (properties feature);
                 featureType = featureTypeOf pth ov (properties feature)
             in case normalizeGeometry (geometry feature) of
                  Pushed g \<Rightarrow>
                    ([\<lparr>f_id = mapId @ ''_'' @ typeName featureType,
                       f_geometry = g,
                       f_properties =
                         \<lparr>p_name = name, p_type = featureType,
                          p_flows = (case sectionFlows of None \<Rightarrow> [] | Some fl \<Rightarrow> fl)\<rparr>\<rparr>],
                     c1)
                | NoCoordinates \<Rightarrow> ([], c1 @ [warnNoCoordinates mapId])
                | Unsupported \<Rightarrow> ([], c1 @ [warnUnsupported mapId (geometry feature)])))"

definition processFeatures :: "flowDataMap \<Rightarrow> string \<Rightarrow> ftype option \<Rightarrow> rawFeature list
    \<Rightarrow> flowFeature list \<times> consoleEntry list" where
  "processFeatures flowDataMap pth ov fs =
     foldl (\<lambda>(allFeatures, console) feature.
              case processFeature flowDataMap pth ov feature of
                (pushed, c) \<Rightarrow> (allFeatures @ pushed, console @ c))
       ([], []) fs"

subsection \<open>One geometry source, and the whole run\<close>

text \<open>
  \<^verbatim>\<open>fetch(url).then(res => { if (!res.ok) throw ...; return res.arrayBuffer(); })\<close>.
\<close>

definition fetchBuffer :: "env \<Rightarrow> string \<Rightarrow> string \<Rightarrow> js_error + buffer" where
  "fetchBuffer e url what =
     (case fetch e url of
        Inl err \<Rightarrow> Inl err
      | Inr res \<Rightarrow>
          if \<not> r_ok res then Inl (Error (what @ '' fetch failed: '' @ r_statusText res))
          else r_arrayBuffer res)"

text \<open>
  The \<^verbatim>\<open>try\<close> block of one source up to the decoded features. \<^verbatim>\<open>Promise.all\<close>
  rejects with the first failure to settle: when both fetches fail, that is the one
  \<open>shpSettlesFirst\<close> names.
\<close>

definition readSource :: "env \<Rightarrow> string \<Rightarrow> consoleEntry list \<times> (js_error + rawFeature list)" where
  "readSource e pth =
     (case fetchBuffer e pth ''SHP'' of
        Inl shpErr \<Rightarrow>
          (case fetchBuffer e (str_replace pth ''.shp'' ''.dbf'') ''DBF'' of
             Inl dbfErr \<Rightarrow> ([], Inl (if shpSettlesFirst e pth then shpErr else dbfErr))
           | Inr dbfBuffer \<Rightarrow> ([], Inl shpErr))
      | Inr shpBuffer \<Rightarrow>
          (case fetchBuffer e (str_replace pth ''.shp'' ''.dbf'') ''DBF'' of
             Inl dbfErr \<Rightarrow> ([], Inl dbfErr)
           | Inr dbfBuffer \<Rightarrow>
               (let c1 = [Console Log (''Worker: SHP and DBF fetched for '' @ pth) NoArg]
                in case shapefileRead e shpBuffer dbfBuffer of
                     Inl err \<Rightarrow> (c1, Inl err)
                   | Inr fs \<Rightarrow>
                       (c1 @ [Console Log (''Worker: Shapefile '' @ pth @ '' read. Features found: ''
                                @ digitsOfNat (length fs)) NoArg],
                        Inr fs))))"

definition errorProcessingShapefile :: "string \<Rightarrow> js_error \<Rightarrow> consoleEntry" where
  "errorProcessingShapefile pth err =
     Console Err (''Worker: Error processing shapefile '' @ pth @ '':'') (ArgError err)"

text \<open>The body of the loop over \<^verbatim>\<open>shapefileConfigs\<close> for one entry, with its \<^verbatim>\<open>catch\<close>.\<close>

definition processSource :: "env \<Rightarrow> flowDataMap \<Rightarrow> shapefileConfig
    \<Rightarrow> flowFeature list \<times> consoleEntry list" where
  "processSource e flowDataMap cfg =
     (let c0 = [Console Log (''Worker: Processing shapefile for testing: '' @ path cfg) NoArg]
      in case readSource e (path cfg) of
           (c1, Inl err) \<Rightarrow> ([], c0 @ c1 @ [errorProcessingShapefile (path cfg) err])
         | (c1, Inr fs) \<Rightarrow>
             (case processFeatures flowDataMap (path cfg) (typeOverride cfg) fs of
                (pushed, c2) \<Rightarrow> (pushed, c0 @ c1 @ c2)))"

definition processSources :: "env \<Rightarrow> flowDataMap \<Rightarrow> shapefileConfig list
    \<Rightarrow> flowFeature list \<times> consoleEntry list" where
  "processSources e flowDataMap cfgs =
     foldl (\<lambda>(allFeatures, console) cfg.
              case processSource e flowDataMap cfg of
                (pushed, c) \<Rightarrow> (allFeatures @ pushed, console @ c))
       ([], []) cfgs"

text \<open>
  \<^verbatim>\<open>fetchAndProcessDataForAllSources(csvFilePath, shapefileConfigs)\<close>, run after the
  console lines \<open>console\<close>: the console afterwards, and the rejection (\<open>Inl\<close>) or the
  list the promise resolves to.
\<close>

definition fetchAndProcessDataForAllSources :: "env \<Rightarrow> consoleEntry list \<Rightarrow> string
    \<Rightarrow> shapefileConfig list \<Rightarrow> consoleEntry list \<times> (js_error + flowFeature list)" where
  "fetchAndProcessDataForAllSources e console csvFilePath shapefileConfigs =
     (case loadFlowData e csvFilePath of
        (c1, Inl err) \<Rightarrow>
          (console @ c1 @ [Console Err ''Worker: Error in fetchAndProcessDataForAllSources:''
                            (ArgError err)],
           Inl err)
      | (c1, Inr flowDataMap) \<Rightarrow>
          (case processSources e flowDataMap shapefileConfigs of
             (allFeatures, c2) \<Rightarrow>
               (console @ c1 @ c2 @ [Console Log ''Worker: All data processed. Total features:''
                                      (ArgNum (length allFeatures))],
                Inr allFeatures)))"

subsection \<open>The worker's message handler\<close>

definition loadAndProcessData :: "env \<Rightarrow> consoleEntry list
    \<Rightarrow> consoleEntry list \<times> (js_error + flowFeature list)" where
  "loadAndProcessData e console =
     fetchAndProcessDataForAllSources e console ''/0_KERN_RIVER_MASTER_DATA_rev6.csv''
       [\<lparr>path = ''/Canals_KernRiver_Merged_rev/Canals_KernRiver_Merged_rev.shp'',
         typeOverride = None\<rparr>,
        \<lparr>path = ''/NHDStreamRiverKernRiver_rev/NHDStreamRiverKernRiver_rev.shp'',
         typeOverride = Some River\<rparr>,
        \<lparr>path = ''/Points_Metro_Bak_Canals_Rev/Points_Metro_Bak_Canals_Rev.shp'',
         typeOverride = Some Weir\<rparr>]"

fun errorMessage :: "js_error \<Rightarrow> string" where
  "errorMessage (Error m) = m"
| "errorMessage (TypeError m) = m"

text \<open>A message of the worker to the main thread, by its \<^verbatim>\<open>type\<close>.\<close>

datatype workerMsg = DataLoaded "flowFeature list" | DataError string | OtherMsg

text \<open>
  \<^verbatim>\<open>self.onmessage\<close> of the worker: the message it posts back, if any. It runs the
  reconciliation once for each \<^verbatim>\<open>'loadData'\<close> it receives.
\<close>

definition workerOnMessage :: "env \<Rightarrow> consoleEntry list \<Rightarrow> string \<Rightarrow> workerMsg option" where
  "workerOnMessage e console eventData =
     (if eventData = ''loadData'' then
        (case snd (loadAndProcessData e console) of
           Inr processedData \<Rightarrow> Some (DataLoaded processedData)
         | Inl err \<Rightarrow> Some (DataError (errorMessage err)))
      else None)"

section \<open>The background execution shim (\<^verbatim>\<open>useFlowData\<close>)\<close>

text \<open>
  The module's variables, with two more that record what it did to its worker: the
  messages it has sent with \<^verbatim>\<open>worker.postMessage\<close>, in order, and whether the worker
  exists and has not been terminated. The list of subscribers is left out: nothing is
  ever added to it.
\<close>

record shim =
  workerDataCache :: "flowFeature list option"
  workerErrorCache :: "string option"
  isLoadingData :: bool
  posted :: "string list"
  workerAlive :: bool

definition initialShim :: shim where
  "initialShim =
     \<lparr>workerDataCache = None, workerErrorCache = None, isLoadingData = False,
      posted = [], workerAlive = False\<rparr>"

text \<open>
  The module's initialisation (lines 12 to 46), run once when the module is loaded;
  \<open>workerDefined\<close> is \<^verbatim>\<open>typeof Worker !== 'undefined'\<close>.
\<close>

definition moduleInit :: "bool \<Rightarrow> shim \<Rightarrow> shim" where
  "moduleInit workerDefined s =
     (if workerDefined \<and> workerDataCache s = None \<and> \<not> isLoadingData s then
        s\<lparr>isLoadingData := True, workerAlive := True, posted := posted s @ [''loadData'']\<rparr>
      else if \<not> workerDefined then
        s\<lparr>workerErrorCache := Some ''Web Workers are not supported.''\<rparr>
      else s)"

text \<open>\<^verbatim>\<open>worker.onmessage\<close> and \<^verbatim>\<open>worker.onerror\<close>; both end with \<^verbatim>\<open>worker.terminate()\<close>.\<close>

definition onmessage :: "shim \<Rightarrow> workerMsg \<Rightarrow> shim" where
  "onmessage s m =
     (let s1 = (case m of
                  DataLoaded payload \<Rightarrow> s\<lparr>workerDataCache := Some payload, workerErrorCache := None\<rparr>
                | DataError payload \<Rightarrow> s\<lparr>workerErrorCache := Some payload, workerDataCache := None\<rparr>
                | OtherMsg \<Rightarrow> s)
      in s1\<lparr>isLoadingData := False, workerAlive := False\<rparr>)"

definition onerror :: "shim \<Rightarrow> string \<Rightarrow> shim" where
  "onerror s message =
     s\<lparr>workerErrorCache := Some message, workerDataCache := None,
       isLoadingData := False, workerAlive := False\<rparr>"

text \<open>
  What the main thread's event loop can deliver from the worker. An event of a worker
  that was never created or has been terminated is not delivered.
\<close>

datatype event = WorkerMessage workerMsg | WorkerErrorEvent string

definition deliver :: "shim \<Rightarrow> event \<Rightarrow> shim" where
  "deliver s ev =
     (if \<not> workerAlive s then s
      else (case ev of
              WorkerMessage m \<Rightarrow> onmessage s m
            | WorkerErrorEvent message \<Rightarrow> onerror s message))"

definition deliverAll :: "shim \<Rightarrow> event list \<Rightarrow> shim" where
  "deliverAll s evs = foldl deliver s evs"

text \<open>
  One look of a request at the module's variables: the first two tests of
  \<^verbatim>\<open>queryFn\<close> and every call of \<^verbatim>\<open>checkData\<close>. \<open>Pending\<close> is the branch that
  sets the timer for the next look. A string is truthy when it is not empty; an array
  always is.
\<close>

datatype outcome = Resolved "flowFeature list" | Rejected string | Pending

definition checkData :: "shim \<Rightarrow> outcome" where
  "checkData s =
     (case workerErrorCache s of
        Some (c # cs) \<Rightarrow> Rejected (c # cs)
      | _ \<Rightarrow>
          (case workerDataCache s of
             Some d \<Rightarrow> Resolved d
           | None \<Rightarrow>
               if \<not> isLoadingData s then Rejected ''Failed to load data from worker.''
               else Pending))"

text \<open>
  One request: \<^verbatim>\<open>queryFn\<close> looks at the module's variables when it is called and,
  while nothing has settled, again after each timer; the argument is the variables as
  they are at its successive looks. \<open>Pending\<close> means that none of these looks settled.
\<close>

fun queryFn :: "shim list \<Rightarrow> outcome" where
  "queryFn [] = Pending"
| "queryFn (s # later) = (case checkData s of Pending \<Rightarrow> queryFn later | r \<Rightarrow> r)"

text \<open>
  The module's variables after the module was loaded and the first \<open>k\<close> events of
  \<open>evs\<close> have come up in the event loop.
\<close>

definition stateAt :: "bool \<Rightarrow> event list \<Rightarrow> nat \<Rightarrow> shim" where
  "stateAt workerDefined evs k = deliverAll (moduleInit workerDefined initialShim) (take k evs)"

text \<open>
  What the worker does with the messages sent to it: it handles them in order, and
  each \<^verbatim>\<open>'loadData'\<close> among them makes it run the reconciliation once and post one
  message back.
\<close>

definition workerReplies :: "env \<Rightarrow> consoleEntry list \<Rightarrow> string list \<Rightarrow> workerMsg list" where
  "workerReplies e console msgs =
     concat (map (\<lambda>m. case workerOnMessage e console m of None \<Rightarrow> [] | Some r \<Rightarrow> [r]) msgs)"

definition reconciliationRuns :: "string list \<Rightarrow> nat" where
  "reconciliationRuns msgs = length (filter (\<lambda>m. m = ''loadData'') msgs)"

section \<open>An example run\<close>

text \<open>
  A table with three rows and three geometry sources, in the manner of the worker's
  tests. The canal source holds two segments with the same identifier, a segment with
  no table row and a polygon; neither file of the weir source can be fetched (the
  geometry file is not found, the attribute file is unreachable); the river source is
  listed after it.
\<close>

definition exampleRows :: "obj list" where
  "exampleRows =
     [[(''MapID'', JStr ''C1''), (''1979'', JStr ''10''), (''1980'', JStr ''12'')],
      [(''MapID'', JStr ''R1''), (''1979'', JStr ''Infinity''), (''1980'', JStr ''102'')],
      [(''MapID'', JStr ''W1''), (''1979'', JStr ''5''), (''1980'', JStr [])]]"

definition canalFeatures :: "rawFeature list" where
  "canalFeatures =
     [\<lparr>geometry = Some (LineString [[Finite 0, Finite 0], [Finite 1, Finite 1]]),
       properties = Some [(''MapID'', JStr ''C1''), (''NAME'', JStr ''Canal Alpha'')]\<rparr>,
      \<lparr>geometry = Some (MultiLineString [[[Finite 4, Finite 4], [Finite 5, Finite 5]],
                                         [[Finite 6, Finite 6], [Finite 7, Finite 7]]]),
       properties = Some [(''MapID'', JStr ''C1''), (''NAME'', JStr ''Canal Alpha East'')]\<rparr>,
      \<lparr>geometry = Some (LineString [[Finite 2, Finite 2], [Finite 3, Finite 3]]),
       properties = Some [(''MapID'', JStr ''C2''), (''NAME'', JStr ''Canal Gamma'')]\<rparr>,
      \<lparr>geometry = Some (Polygon [[[Finite 0, Finite 0], [Finite 1, Finite 1],
                                  [Finite 0, Finite 1], [Finite 0, Finite 0]]]),
       properties = Some [(''MapID'', JStr ''Poly1''), (''NAME'', JStr ''Polygon Feature'')]\<rparr>]"

definition riverFeatures :: "rawFeature list" where
  "riverFeatures =
     [\<lparr>geometry = Some (LineString [[Finite 2, Finite 2], [Finite 3, Finite 3]]),
       properties = Some [(''MAPID'', JStr ''R1''), (''Name'', JStr ''River Beta'')]\<rparr>]"

definition exampleEnv :: env where
  "exampleEnv =
     \<lparr>fetch = (\<lambda>url.
         if url = ''/fake/data.csv'' then
           Inr \<lparr>r_ok = True, r_statusText = ''OK'', r_text = Inr ''MapID,1979,1980'',
                r_arrayBuffer = Inr []\<rparr>
         else if url = ''/fake/canals.shp'' \<or> url = ''/fake/canals.dbf'' then
           Inr \<lparr>r_ok = True, r_statusText = ''OK'', r_text = Inr [], r_arrayBuffer = Inr [1]\<rparr>
         else if url = ''/fake/rivers.shp'' \<or> url = ''/fake/rivers.dbf'' then
           Inr \<lparr>r_ok = True, r_statusText = ''OK'', r_text = Inr [], r_arrayBuffer = Inr [2]\<rparr>
         else if url = ''/fake/weirs.shp'' then
           Inr \<lparr>r_ok = False, r_statusText = ''Not Found'', r_text = Inr [], r_arrayBuffer = Inr []\<rparr>
         else Inl (Error ''Network error'')),
      papaParse = (\<lambda>csvText. \<lparr>data = exampleRows, errors = []\<rparr>),
      shapefileRead = (\<lambda>shp dbf.
         if shp = [1] then Inr canalFeatures
         else if shp = [2] then Inr riverFeatures
         else Inl (Error ''Unsupported file'')),
      shpSettlesFirst = (\<lambda>pth. True)\<rparr>"

text \<open>
  The same inputs at another time: the fetches of a source settle in the other order,
  and an address the run never reads answers differently.
\<close>

definition exampleEnvLater :: env where
  "exampleEnvLater =
     exampleEnv
       \<lparr>fetch := (\<lambda>url. if url = ''/fake/other.csv''
                         then Inr \<lparr>r_ok = True, r_statusText = ''OK'', r_text = Inr [],
                                   r_arrayBuffer = Inr []\<rparr>
                         else fetch exampleEnv url),
        shpSettlesFirst := (\<lambda>pth. False)\<rparr>"

definition exampleConfigs :: "shapefileConfig list" where
  "exampleConfigs =
     [\<lparr>path = ''/fake/canals.shp'', typeOverride = None\<rparr>,
      \<lparr>path = ''/fake/weirs.shp'', typeOverride = Some Weir\<rparr>,
      \<lparr>path = ''/fake/rivers.shp'', typeOverride = Some River\<rparr>]"

definition exampleTable :: flowDataMap where
  "exampleTable =
     [(''C1'', [(''1979'', Finite 10), (''1980'', Finite 12)]),
      (''R1'', [(''1979'', PosInfinity), (''1980'', Finite 102)]),
      (''W1'', [(''1979'', Finite 5), (''1980'', Finite 0)])]"

definition exampleFeatures :: "flowFeature list" where
  "exampleFeatures =
     [\<lparr>f_id = ''C1_canal'',
       f_geometry = LineString [[Finite 0, Finite 0], [Finite 1, Finite 1]],
       f_properties = \<lparr>p_name = ''Canal Alpha'', p_type = Canal,
                       p_flows = [(''1979'', Finite 10), (''1980'', Finite 12)]\<rparr>\<rparr>,
      \<lparr>f_id = ''C1_canal'',
       f_geometry = LineString [[Finite 4, Finite 4], [Finite 5, Finite 5]],
       f_properties = \<lparr>p_name = ''Canal Alpha East'', p_type = Canal,
                       p_flows = [(''1979'', Finite 10), (''1980'', Finite 12)]\<rparr>\<rparr>,
      \<lparr>f_id = ''C2_canal'',
       f_geometry = LineString [[Finite 2, Finite 2], [Finite 3, Finite 3]],
       f_properties = \<lparr>p_name = ''Canal Gamma'', p_type = Canal, p_flows = []\<rparr>\<rparr>,
      \<lparr>f_id = ''R1_river'',
       f_geometry = LineString [[Finite 2, Finite 2], [Finite 3, Finite 3]],
       f_properties = \<lparr>p_name = ''River Beta'', p_type = River,
                       p_flows = [(''1979'', PosInfinity), (''1980'', Finite 102)]\<rparr>\<rparr>]"

text \<open>
  The example data served at the addresses the worker reads: the table, the canal
  source and the river source; the point source cannot be fetched.
\<close>

definition deployedEnv :: env where
  "deployedEnv =
     exampleEnv
       \<lparr>fetch := (\<lambda>url.
          if url = ''/0_KERN_RIVER_MASTER_DATA_rev6.csv'' then fetch exampleEnv ''/fake/data.csv''
          else if url = ''/Canals_KernRiver_Merged_rev/Canals_KernRiver_Merged_rev.shp''
                \<or> url = ''/Canals_KernRiver_Merged_rev/Canals_KernRiver_Merged_rev.dbf''
          then fetch exampleEnv ''/fake/canals.shp''
          else if url = ''/NHDStreamRiverKernRiver_rev/NHDStreamRiverKernRiver_rev.shp''
                \<or> url = ''/NHDStreamRiverKernRiver_rev/NHDStreamRiverKernRiver_rev.dbf''
          then fetch exampleEnv ''/fake/rivers.shp''
          else Inl (Error ''Network error''))\<rparr>"

section \<open>Predicates used in the statements\<close>

text \<open>No flow value of any entry of the table is \<open>NaN\<close>.\<close>

definition noNaNTable :: "flowDataMap \<Rightarrow> bool" where
  "noNaNTable tbl = (\<forall>(i, fl) \<in> set tbl. \<forall>(k, v) \<in> set fl. \<not> isNaN v)"

text \<open>
  The table can be fetched and decoded: the fetch resolves with an ok response whose
  text can be read, and every decoded row has an identifier that is a string or falsy.
\<close>

definition tableReadable :: "env \<Rightarrow> string \<Rightarrow> bool" where
  "tableReadable e csv =
     (\<exists>res t. fetch e csv = Inr res \<and> r_ok res \<and> r_text res = Inr t
        \<and> (\<forall>row \<in> set (data (papaParse e t)).
              truthy (getProp row ''MapID'') \<longrightarrow> (\<exists>s. getProp row ''MapID'' = JStr s)))"

text \<open>
  The fetch of one file of a source fails with \<open>err\<close>: the request rejects with it,
  or the response is not ok (\<open>err\<close> is then the error the worker builds from the status
  text, \<open>what\<close> being \<open>SHP\<close> or \<open>DBF\<close>), or reading the body rejects with it.
\<close>

definition fetchFails :: "env \<Rightarrow> string \<Rightarrow> string \<Rightarrow> js_error \<Rightarrow> bool" where
  "fetchFails e url what err =
     (fetch e url = Inl err
      \<or> (\<exists>res. fetch e url = Inr res
            \<and> (\<not> r_ok res \<and> err = Error (what @ '' fetch failed: '' @ r_statusText res)
               \<or> r_ok res \<and> r_arrayBuffer res = Inl err)))"

text \<open>The fetch of one file of a source gives the bytes \<open>buf\<close>.\<close>

definition fetchGives :: "env \<Rightarrow> string \<Rightarrow> buffer \<Rightarrow> bool" where
  "fetchGives e url buf =
     (\<exists>res. fetch e url = Inr res \<and> r_ok res \<and> r_arrayBuffer res = Inr buf)"

text \<open>
  Fetching or decoding the source at \<open>pth\<close> fails, and \<open>err\<close> is the failure the worker
  catches: the failure of the one fetch that fails, of the fetch that settles first
  when both fail, or the decoder's rejection of the two files fetched.
\<close>

definition sourceFailsWith :: "env \<Rightarrow> string \<Rightarrow> js_error \<Rightarrow> bool" where
  "sourceFailsWith e pth err =
     ((fetchFails e pth ''SHP'' err
         \<and> (\<exists>dbf. fetchGives e (str_replace pth ''.shp'' ''.dbf'') dbf))
      \<or> ((\<exists>shp. fetchGives e pth shp)
         \<and> fetchFails e (str_replace pth ''.shp'' ''.dbf'') ''DBF'' err)
      \<or> (\<exists>shpErr dbfErr. fetchFails e pth ''SHP'' shpErr
            \<and> fetchFails e (str_replace pth ''.shp'' ''.dbf'') ''DBF'' dbfErr
            \<and> err = (if shpSettlesFirst e pth then shpErr else dbfErr))
      \<or> (\<exists>shp dbf. fetchGives e pth shp
            \<and> fetchGives e (str_replace pth ''.shp'' ''.dbf'') dbf
            \<and> shapefileRead e shp dbf = Inl err))"

text \<open>
  Two environments hold identical inputs for a run: the same answer for the table,
  the same decoders, and the same answers for the two files of every configured
  source. They may differ in everything else: what other addresses answer, and the
  order in which the fetches of a source settle.
\<close>

definition sameInputs :: "env \<Rightarrow> env \<Rightarrow> string \<Rightarrow> shapefileConfig list \<Rightarrow> bool" where
  "sameInputs e1 e2 csv cfgs =
     (fetch e1 csv = fetch e2 csv
      \<and> papaParse e1 = papaParse e2
      \<and> shapefileRead e1 = shapefileRead e2
      \<and> (\<forall>cfg \<in> set cfgs.
            fetch e1 (path cfg) = fetch e2 (path cfg)
            \<and> fetch e1 (str_replace (path cfg) ''.shp'' ''.dbf'')
                = fetch e2 (str_replace (path cfg) ''.shp'' ''.dbf'')))"

section \<open>Properties of the table parser\<close>

lemma trim_all_white: "list_all isWhiteSpace s \<Longrightarrow> trim s = []"
proof -
  assume "list_all isWhiteSpace s"
  then have "dropWhile isWhiteSpace s = []" by (simp add: dropWhile_eq_Nil_conv list_all_iff)
  then show ?thesis unfolding trim_def by (simp only: rev.simps dropWhile.simps)
qed

lemma parseFloat_empty: "parseFloat [] = NaN"
  by (simp add: parseFloat_def trimStart_def)

lemma rowFlows_fold:
  "map_of (foldl (\<lambda>flows key.
              if isYearKey key then
                (let flowVal = parseFloat (toString (getProp row key))
                 in AList.update key (if isNaN flowVal then Finite 0 else flowVal) flows)
              else flows) acc ks) k =
   (if k \<in> set ks \<and> isYearKey k
    then Some (if isNaN (parseFloat (toString (getProp row k))) then Finite 0
               else parseFloat (toString (getProp row k)))
    else map_of acc k)"
  by (induction ks arbitrary: acc) (auto simp: Let_def update_conv')

lemma rowFlows_lookup:
  "map_of (rowFlows row) k =
   (if isYearKey k \<and> k \<in> fst ` set row
    then Some (if isNaN (parseFloat (toString (getProp row k))) then Finite 0
               else parseFloat (toString (getProp row k)))
    else None)"
  unfolding rowFlows_def rowFlows_fold by (auto simp: ownKeys_def)

lemma update_set_subset: "set (AList.update k v al) \<subseteq> insert (k, v) (set al)"
  by (induction al) auto

lemma rowFlows_fold_noNaN:
  "\<forall>(k, v) \<in> set acc. \<not> isNaN v \<Longrightarrow>
   \<forall>(k, v) \<in> set (foldl (\<lambda>flows key.
              if isYearKey key then
                (let flowVal = parseFloat (toString (getProp row key))
                 in AList.update key (if isNaN flowVal then Finite 0 else flowVal) flows)
              else flows) acc ks). \<not> isNaN v"
proof (induction ks arbitrary: acc)
  case Nil
  then show ?case by simp
next
  case (Cons a ks)
  show ?case
  proof (cases "isYearKey a")
    case False
    with Cons show ?thesis by simp
  next
    case True
    let ?v = "if isNaN (parseFloat (toString (getProp row a))) then Finite 0
              else parseFloat (toString (getProp row a))"
    have "\<not> isNaN ?v" by simp
    with Cons.prems have "\<forall>(k, v) \<in> set (AList.update a ?v acc). \<not> isNaN v"
      using update_set_subset[of a ?v acc] by auto
    from Cons.IH[OF this] True show ?thesis by (simp add: Let_def)
  qed
qed

lemma rowFlows_noNaN: "(k, v) \<in> set (rowFlows row) \<Longrightarrow> \<not> isNaN v"
  using rowFlows_fold_noNaN[of "[]" row "ownKeys row"] unfolding rowFlows_def by auto

lemma processRow_string:
  "getProp row ''MapID'' = JStr mapID \<Longrightarrow> mapID \<noteq> [] \<Longrightarrow>
   processRow tbl row = ([], Inr (AList.update (trim mapID) (rowFlows row) tbl))"
  by (simp add: processRow_def)

lemma processRow_noNaN:
  assumes "noNaNTable tbl" "processRow tbl row = (c, Inr tbl')"
  shows "noNaNTable tbl'"
proof (cases "truthy (getProp row ''MapID'')")
  case False
  with assms show ?thesis by (simp add: processRow_def)
next
  case True
  with assms(2) obtain mapID where t: "tbl' = AList.update (trim mapID) (rowFlows row) tbl"
    by (auto simp: processRow_def split: jsval.splits)
  show ?thesis unfolding t noNaNTable_def
    using update_set_subset[of "trim mapID" "rowFlows row" tbl] assms(1) rowFlows_noNaN
    unfolding noNaNTable_def by fastforce
qed

lemma processRows_noNaN:
  "noNaNTable tbl \<Longrightarrow> processRows tbl c rows = (c', Inr tbl') \<Longrightarrow> noNaNTable tbl'"
proof (induction rows arbitrary: tbl c)
  case Nil
  then show ?case by simp
next
  case (Cons row rows)
  obtain c1 r where pr: "processRow tbl row = (c1, r)" by (cases "processRow tbl row")
  show ?case
  proof (cases r)
    case (Inl e)
    with Cons.prems pr show ?thesis by simp
  next
    case (Inr t1)
    with pr Cons.prems(1) have "noNaNTable t1" using processRow_noNaN by blast
    moreover from Cons.prems(2) pr Inr have "processRows t1 (c @ c1) rows = (c', Inr tbl')" by simp
    ultimately show ?thesis using Cons.IH by blast
  qed
qed

lemma processRows_snd: "snd (processRows tbl c rows) = snd (processRows tbl [] rows)"
proof (induction rows arbitrary: tbl c)
  case Nil
  show ?case by simp
next
  case (Cons row rows)
  obtain c1 r where pr: "processRow tbl row = (c1, r)" by (cases "processRow tbl row")
  show ?case
  proof (cases r)
    case (Inl err)
    with pr show ?thesis by simp
  next
    case (Inr t1)
    with pr Cons.IH[of t1 "c @ c1"] Cons.IH[of t1 "[] @ c1"] show ?thesis by simp
  qed
qed

lemma buildFlowDataMap_snd:
  "snd (buildFlowDataMap pr) = snd (processRows [] [] (data pr))"
proof -
  have "snd (buildFlowDataMap pr) = snd (processRows [] c (data pr))" 
    if "c = (if length (errors pr) > 0
                then [Console Log (''Worker: CSV parsed. Rows: ''
                   @ digitsOfNat (length (data pr))) NoArg] @ [Console Warn ''Worker: Errors during CSV parsing:''
                             (ArgErrors (errors pr))]
                else [Console Log (''Worker: CSV parsed. Rows: ''
                   @ digitsOfNat (length (data pr))) NoArg])" for c
    unfolding buildFlowDataMap_def Let_def that[symmetric]
    by (cases "processRows [] c (data pr)") (auto split: sum.splits)
  then show ?thesis using processRows_snd by metis
qed

lemma loadFlowData_snd:
  "snd (loadFlowData e csv) =
     (case fetch e csv of
        Inl err \<Rightarrow> Inl err
      | Inr res \<Rightarrow>
          if \<not> r_ok res then Inl (Error (''Failed to fetch CSV: '' @ r_statusText res))
          else (case r_text res of
                  Inl err \<Rightarrow> Inl err
                | Inr t \<Rightarrow> snd (processRows [] [] (data (papaParse e t)))))"
  unfolding loadFlowData_def Let_def buildFlowDataMap_snd[symmetric]
  by (simp split: sum.splits prod.splits)

lemma loadFlowData_Inr:
  assumes "snd (loadFlowData e csv) = Inr tbl"
  shows "\<exists>res t. fetch e csv = Inr res \<and> r_ok res \<and> r_text res = Inr t
           \<and> snd (processRows [] [] (data (papaParse e t))) = Inr tbl"
  using assms unfolding loadFlowData_snd by (auto split: sum.splits if_splits)

lemma loadFlowData_noNaN:
  assumes "snd (loadFlowData e csv) = Inr tbl"
  shows "noNaNTable tbl"
proof -
  from loadFlowData_Inr[OF assms] obtain t where
    "snd (processRows [] [] (data (papaParse e t))) = Inr tbl" by blast
  then have "processRows [] [] (data (papaParse e t))
               = (fst (processRows [] [] (data (papaParse e t))), Inr tbl)"
    by (metis prod.collapse)
  moreover have "noNaNTable []" by (simp add: noNaNTable_def)
  ultimately show ?thesis using processRows_noNaN by blast
qed

text \<open>
  C4. A row whose \<^verbatim>\<open>MapID\<close> cell is a non-empty string is stored under its trimmed
  identifier. For every column of the row whose header is exactly four digits, the
  value stored for that year is \<^verbatim>\<open>parseFloat\<close> of the cell, or exactly \<open>0\<close> when
  \<^verbatim>\<open>parseFloat\<close> gives \<open>NaN\<close>, as it does for an empty cell; no stored value is
  \<open>NaN\<close>; a header that is not four digits gives no entry.
\<close>

theorem flow_table_row_values:
  assumes "getProp row ''MapID'' = JStr mapID" and "mapID \<noteq> []"
  shows "processRow tbl row = ([], Inr (AList.update (trim mapID) (rowFlows row) tbl))
       \<and> map_of (AList.update (trim mapID) (rowFlows row) tbl) (trim mapID) = Some (rowFlows row)
       \<and> (\<forall>key. isYearKey key \<and> key \<in> fst ` set row \<longrightarrow>
             map_of (rowFlows row) key =
               Some (if isNaN (parseFloat (toString (getProp row key))) then Finite 0
                     else parseFloat (toString (getProp row key))))
       \<and> (\<forall>key. isYearKey key \<and> key \<in> fst ` set row \<and> getProp row key = JStr [] \<longrightarrow>
             map_of (rowFlows row) key = Some (Finite 0))
       \<and> (\<forall>key v. map_of (rowFlows row) key = Some v \<longrightarrow> \<not> isNaN v)
       \<and> (\<forall>key. \<not> isYearKey key \<longrightarrow> map_of (rowFlows row) key = None)"
proof (intro conjI)
  show "processRow tbl row = ([], Inr (AList.update (trim mapID) (rowFlows row) tbl))"
    using assms by (rule processRow_string)
  show "map_of (AList.update (trim mapID) (rowFlows row) tbl) (trim mapID) = Some (rowFlows row)"
    by (simp add: update_conv')
  show "\<forall>key v. map_of (rowFlows row) key = Some v \<longrightarrow> \<not> isNaN v"
    using rowFlows_noNaN map_of_SomeD by fast
  show "\<forall>key. isYearKey key \<and> key \<in> fst ` set row \<and> getProp row key = JStr [] \<longrightarrow>
             map_of (rowFlows row) key = Some (Finite 0)"
    by (simp add: rowFlows_lookup parseFloat_empty)
  show "\<forall>key. isYearKey key \<and> key \<in> fst ` set row \<longrightarrow>
             map_of (rowFlows row) key =
               Some (if isNaN (parseFloat (toString (getProp row key))) then Finite 0
                     else parseFloat (toString (getProp row key)))"
    by (simp add: rowFlows_lookup)
  show "\<forall>key. \<not> isYearKey key \<longrightarrow> map_of (rowFlows row) key = None"
    by (simp add: rowFlows_lookup)
qed

theorem flow_table_row_values_witness:
  "getProp [(''MapID'', JStr ''C1 ''), (''1979'', JStr ''10''), (''1980'', JStr []),
            (''NAME'', JStr ''12'')] ''MapID'' = JStr ''C1 ''
   \<and> processRow [] [(''MapID'', JStr ''C1 ''), (''1979'', JStr ''10''), (''1980'', JStr []),
                     (''NAME'', JStr ''12'')]
       = ([], Inr [(''C1'', [(''1979'', Finite 10), (''1980'', Finite 0)])])"
proof -
  let ?row = "[(''MapID'', JStr ''C1 ''), (''1979'', JStr ''10''), (''1980'', JStr []),
               (''NAME'', JStr ''12'')]"
  have h1: "getProp ?row ''MapID'' = JStr ''C1 ''" by code_simp
  have h2: "''C1 '' \<noteq> []" by simp
  have r: "AList.update (trim ''C1 '') (rowFlows ?row) []
             = [(''C1'', [(''1979'', Finite 10), (''1980'', Finite 0)])]" by code_simp
  from flow_table_row_values[OF h1 h2, of "[]"]
  have "processRow [] ?row = ([], Inr (AList.update (trim ''C1 '') (rowFlows ?row) []))"
    by blast
  with h1 r show ?thesis by simp
qed

text \<open>
  C10. A row whose \<^verbatim>\<open>MapID\<close> cell is a non-empty string of white space only is not
  skipped: the test for a missing identifier looks at the untrimmed cell, so the row's
  flows are stored under the empty key, and the row writes no console line.
\<close>

theorem whitespace_identifier_row_stored:
  assumes "getProp row ''MapID'' = JStr mapID" and "mapID \<noteq> []"
    and "list_all isWhiteSpace mapID"
  shows "processRow tbl row = ([], Inr (AList.update [] (rowFlows row) tbl))
       \<and> map_of (AList.update [] (rowFlows row) tbl) [] = Some (rowFlows row)"
  using processRow_string[OF assms(1,2), of tbl] trim_all_white[OF assms(3)]
  by (simp add: update_conv')

theorem whitespace_identifier_row_stored_witness:
  "getProp [(''MapID'', JStr ''  ''), (''1979'', JStr ''7'')] ''MapID'' = JStr ''  ''
   \<and> list_all isWhiteSpace ''  ''
   \<and> processRow [(''C1'', [])] [(''MapID'', JStr ''  ''), (''1979'', JStr ''7'')]
       = ([], Inr [(''C1'', []), ([], [(''1979'', Finite 7)])])"
proof -
  let ?row = "[(''MapID'', JStr ''  ''), (''1979'', JStr ''7'')]"
  have h1: "getProp ?row ''MapID'' = JStr ''  ''" by code_simp
  have h2: "''  '' \<noteq> []" by simp
  have h3: "list_all isWhiteSpace ''  ''" by code_simp
  have r: "AList.update [] (rowFlows ?row) [(''C1'', [])]
             = [(''C1'', []), ([], [(''1979'', Finite 7)])]" by code_simp
  from whitespace_identifier_row_stored[OF h1 h2 h3, of "[(''C1'', [])]"]
  have "processRow [(''C1'', [])] ?row = ([], Inr (AList.update [] (rowFlows ?row) [(''C1'', [])]))"
    by blast
  with h1 h3 r show ?thesis by simp
qed

section \<open>Properties of the classifier\<close>

lemma str_includes_sublist: "str_includes s k = sublist k s"
  by (induction s) (auto simp: sublist_Cons_right)

text \<open>
  What \<^verbatim>\<open>getFeatureType\<close> gives for every label and every attribute mapping: the
  category by the label's precedence, except that a label containing \<open>point\<close> or
  \<open>weir\<close> makes it throw when the \<^verbatim>\<open>TYPE\<close> value cannot be converted to a string.
\<close>

lemma getFeatureType_result:
  "getFeatureType filePath props =
     (if sublist ''point'' (toLowerCase filePath) \<or> sublist ''weir'' (toLowerCase filePath)
      then (case getUnknown props ''TYPE'' of
              Unconvertible err \<Rightarrow> Inl err
            | Convertible v \<Rightarrow> Inr Weir)
      else if sublist ''canal'' (toLowerCase filePath) then Inr Canal
      else if sublist ''river'' (toLowerCase filePath) then Inr River
      else Inr Canal)"
  by (cases "getUnknown props ''TYPE''")
     (simp_all add: getFeatureType_def Let_def str_includes_sublist)

lemma getUnknown_decoded:
  "getUnknown (map (\<lambda>(k, v). (k, Convertible v)) ps) k = Convertible (getProp ps k)"
  by (induction ps) (auto simp: getUnknown_def getProp_def)

text \<open>On the attribute bag of a decoded feature the function cannot throw.\<close>

lemma getFeatureType_decoded:
  "getFeatureType filePath (map (\<lambda>(k, v). (k, Convertible v)) ps)
     = Inr (getFeatureTypeDecoded filePath ps)"
  by (simp add: getFeatureType_result getUnknown_decoded getFeatureTypeDecoded_def Let_def
      str_includes_sublist)

text \<open>
  C7. The claim and the code differ: for a label containing \<open>point\<close> or \<open>weir\<close> the
  code evaluates \<^verbatim>\<open>String(properties.TYPE)\<close> although both branches of the test return
  \<^verbatim>\<open>'weir'\<close>, so an attribute mapping whose \<^verbatim>\<open>TYPE\<close> is an object that cannot be
  converted (such as \<^verbatim>\<open>Object.create(null)\<close>) makes the function throw instead of
  returning \<^verbatim>\<open>'weir'\<close>; with a \<^verbatim>\<open>TYPE\<close> that converts, and for the same mapping under
  a label without \<open>point\<close> or \<open>weir\<close>, it returns as the claim says.
\<close>

theorem getFeatureType_throws:
  "getFeatureType ''/path/to/some_point_file.shp''
     [(''TYPE'', Unconvertible (TypeError ''Cannot convert object to primitive value''))]
     = Inl (TypeError ''Cannot convert object to primitive value'')
   \<and> getFeatureType ''/path/to/some_point_file.shp'' [(''TYPE'', Convertible (JStr ''other''))]
       = Inr Weir
   \<and> getFeatureType ''/path/to/some_canal_file.shp''
         [(''TYPE'', Unconvertible (TypeError ''Cannot convert object to primitive value''))]
       = Inr Canal"
  by code_simp

section \<open>Properties of the reconciliation\<close>

lemma foldl_push:
  "foldl (\<lambda>(acc, console) x. case g x of (pushed, c) \<Rightarrow> (acc @ pushed, console @ c)) (a0, c0) xs
     = (a0 @ concat (map (\<lambda>x. fst (g x)) xs), c0 @ concat (map (\<lambda>x. snd (g x)) xs))"
  by (induction xs arbitrary: a0 c0) (auto split: prod.splits)

lemma processFeatures_eq:
  "processFeatures tbl pth ov fs =
     (concat (map (\<lambda>f. fst (processFeature tbl pth ov f)) fs),
      concat (map (\<lambda>f. snd (processFeature tbl pth ov f)) fs))"
  unfolding processFeatures_def
  using foldl_push[of "processFeature tbl pth ov" "[]" "[]" fs] by simp

lemma processSources_eq:
  "processSources e tbl cfgs =
     (concat (map (\<lambda>cfg. fst (processSource e tbl cfg)) cfgs),
      concat (map (\<lambda>cfg. snd (processSource e tbl cfg)) cfgs))"
  unfolding processSources_def
  using foldl_push[of "processSource e tbl" "[]" "[]" cfgs] by simp

lemma processSource_fst:
  "fst (processSource e tbl cfg) =
     (case snd (readSource e (path cfg)) of
        Inl err \<Rightarrow> []
      | Inr fs \<Rightarrow> concat (map (\<lambda>f. fst (processFeature tbl (path cfg) (typeOverride cfg) f)) fs))"
  by (cases "readSource e (path cfg)")
     (auto simp: processSource_def processFeatures_eq split: sum.splits)

lemma processSource_failed:
  assumes "snd (readSource e (path cfg)) = Inl err"
  shows "fst (processSource e tbl cfg) = []"
    and "errorProcessingShapefile (path cfg) err \<in> set (snd (processSource e tbl cfg))"
  using assms by (cases "readSource e (path cfg)"; simp add: processSource_def)+

lemma run_failed:
  "snd (loadFlowData e csv) = Inl err \<Longrightarrow>
   snd (fetchAndProcessDataForAllSources e console csv cfgs) = Inl err"
  by (cases "loadFlowData e csv") (simp add: fetchAndProcessDataForAllSources_def)

lemma run_succeeded:
  "snd (loadFlowData e csv) = Inr tbl \<Longrightarrow>
   fetchAndProcessDataForAllSources e console csv cfgs =
     (console @ fst (loadFlowData e csv) @ snd (processSources e tbl cfgs)
        @ [Console Log ''Worker: All data processed. Total features:''
             (ArgNum (length (fst (processSources e tbl cfgs))))],
      Inr (fst (processSources e tbl cfgs)))"
  by (cases "loadFlowData e csv")
     (simp add: fetchAndProcessDataForAllSources_def split: prod.splits)

lemma run_features:
  "snd (loadFlowData e csv) = Inr tbl \<Longrightarrow>
   snd (fetchAndProcessDataForAllSources e console csv cfgs) =
     Inr (concat (map (\<lambda>cfg. fst (processSource e tbl cfg)) cfgs))"
  by (simp add: run_succeeded processSources_eq)

lemma processRows_failed:
  "snd (processRows tbl c rows) = Inl err \<Longrightarrow>
   err = TypeError ''row.MapID.trim is not a function''
   \<and> (\<exists>row \<in> set rows. truthy (getProp row ''MapID'') \<and> (\<forall>s. getProp row ''MapID'' \<noteq> JStr s))"
proof (induction rows arbitrary: tbl c)
  case Nil
  then show ?case by simp
next
  case (Cons row rows)
  obtain c1 r where pr: "processRow tbl row = (c1, r)" by (cases "processRow tbl row")
  show ?case
  proof (cases r)
    case (Inl e1)
    with pr Cons.prems have "e1 = err" by simp
    with pr Inl have "processRow tbl row = (c1, Inl err)" by simp
    then have "err = TypeError ''row.MapID.trim is not a function''
        \<and> truthy (getProp row ''MapID'') \<and> (\<forall>s. getProp row ''MapID'' \<noteq> JStr s)"
      by (auto simp: processRow_def split: if_splits jsval.splits)
    then show ?thesis by simp
  next
    case (Inr t1)
    with pr Cons.prems have "snd (processRows t1 (c @ c1) rows) = Inl err" by simp
    from Cons.IH[OF this] show ?thesis by auto
  qed
qed

lemma tableReadable_loads:
  assumes "tableReadable e csv"
  shows "\<exists>tbl. snd (loadFlowData e csv) = Inr tbl"
proof -
  from assms obtain res t where f: "fetch e csv = Inr res" and ok: "r_ok res"
    and t: "r_text res = Inr t"
    and rows: "\<forall>row \<in> set (data (papaParse e t)).
                 truthy (getProp row ''MapID'') \<longrightarrow> (\<exists>s. getProp row ''MapID'' = JStr s)"
    unfolding tableReadable_def by blast
  have "\<exists>tbl. snd (processRows [] [] (data (papaParse e t))) = Inr tbl"
  proof (cases "snd (processRows [] [] (data (papaParse e t)))")
    case (Inl err)
    from processRows_failed[OF this] rows show ?thesis by blast
  next
    case (Inr tbl)
    then show ?thesis by blast
  qed
  with f ok t show ?thesis by (simp add: loadFlowData_snd)
qed

lemma fetchBuffer_fails: "fetchFails e url what err \<Longrightarrow> fetchBuffer e url what = Inl err"
  by (cases "fetch e url") (auto simp: fetchBuffer_def fetchFails_def)

lemma fetchBuffer_gives: "fetchGives e url buf \<Longrightarrow> fetchBuffer e url what = Inr buf"
  by (cases "fetch e url") (auto simp: fetchBuffer_def fetchGives_def)

lemma readSource_fails:
  assumes "sourceFailsWith e pth err"
  shows "snd (readSource e pth) = Inl err"
  using assms unfolding sourceFailsWith_def
proof (elim disjE conjE exE)
  fix dbf
  assume "fetchFails e pth ''SHP'' err" "fetchGives e (str_replace pth ''.shp'' ''.dbf'') dbf"
  then have "fetchBuffer e pth ''SHP'' = Inl err"
    "fetchBuffer e (str_replace pth ''.shp'' ''.dbf'') ''DBF'' = Inr dbf"
    by (simp_all add: fetchBuffer_fails fetchBuffer_gives)
  then show ?thesis by (simp add: readSource_def)
next
  fix shp
  assume "fetchGives e pth shp" "fetchFails e (str_replace pth ''.shp'' ''.dbf'') ''DBF'' err"
  then have "fetchBuffer e pth ''SHP'' = Inr shp"
    "fetchBuffer e (str_replace pth ''.shp'' ''.dbf'') ''DBF'' = Inl err"
    by (simp_all add: fetchBuffer_fails fetchBuffer_gives)
  then show ?thesis by (simp add: readSource_def)
next
  fix shpErr dbfErr
  assume "fetchFails e pth ''SHP'' shpErr"
    "fetchFails e (str_replace pth ''.shp'' ''.dbf'') ''DBF'' dbfErr"
    and err: "err = (if shpSettlesFirst e pth then shpErr else dbfErr)"
  then have "fetchBuffer e pth ''SHP'' = Inl shpErr"
    "fetchBuffer e (str_replace pth ''.shp'' ''.dbf'') ''DBF'' = Inl dbfErr"
    by (simp_all add: fetchBuffer_fails)
  with err show ?thesis by (simp add: readSource_def)
next
  fix shp dbf
  assume "fetchGives e pth shp" "fetchGives e (str_replace pth ''.shp'' ''.dbf'') dbf"
    and d: "shapefileRead e shp dbf = Inl err"
  then have "fetchBuffer e pth ''SHP'' = Inr shp"
    "fetchBuffer e (str_replace pth ''.shp'' ''.dbf'') ''DBF'' = Inr dbf"
    by (simp_all add: fetchBuffer_gives)
  with d show ?thesis by (simp add: readSource_def)
qed

lemma readSource_gives:
  assumes "fetchGives e pth shp" and "fetchGives e (str_replace pth ''.shp'' ''.dbf'') dbf"
    and d: "shapefileRead e shp dbf = Inr fs"
  shows "snd (readSource e pth) = Inr fs"
proof -
  from assms(1,2) have "fetchBuffer e pth ''SHP'' = Inr shp"
    "fetchBuffer e (str_replace pth ''.shp'' ''.dbf'') ''DBF'' = Inr dbf"
    by (simp_all add: fetchBuffer_gives)
  with d show ?thesis by (simp add: readSource_def)
qed

text \<open>
  C1. The run rejects only when the table stage does: the fetch of the table rejects,
  its response is not ok, reading its text rejects, or a decoded row cannot be read
  (its identifier is a truthy value that is not a string). When the table can be
  fetched and decoded the run resolves, whatever the geometry sources do, to the
  features of all sources in order. A source whose fetch or decoding fails (either
  file cannot be fetched, or the decoder rejects the two files) contributes no
  feature, and the console holds the error line that names its path and carries the
  failure; a source that is fetched and decoded contributes the features of its
  decoded collection.
\<close>

theorem run_fails_only_on_table:
  "(\<forall>err. snd (fetchAndProcessDataForAllSources e console csv cfgs) = Inl err \<longrightarrow>
       snd (loadFlowData e csv) = Inl err
       \<and> (fetch e csv = Inl err
          \<or> (\<exists>res. fetch e csv = Inr res
                \<and> (\<not> r_ok res \<and> err = Error (''Failed to fetch CSV: '' @ r_statusText res)
                   \<or> r_ok res \<and> r_text res = Inl err
                   \<or> (\<exists>t. r_ok res \<and> r_text res = Inr t
                         \<and> (\<exists>row \<in> set (data (papaParse e t)).
                               truthy (getProp row ''MapID'')
                               \<and> (\<forall>s. getProp row ''MapID'' \<noteq> JStr s)))))))
   \<and> (tableReadable e csv \<longrightarrow>
       (\<exists>tbl. snd (loadFlowData e csv) = Inr tbl
          \<and> snd (fetchAndProcessDataForAllSources e console csv cfgs)
              = Inr (concat (map (\<lambda>cfg. fst (processSource e tbl cfg)) cfgs))
          \<and> (\<forall>cfg \<in> set cfgs.
                (\<forall>err. sourceFailsWith e (path cfg) err \<longrightarrow>
                   fst (processSource e tbl cfg) = []
                   \<and> Console Err (''Worker: Error processing shapefile '' @ path cfg @ '':'')
                        (ArgError err)
                       \<in> set (fst (fetchAndProcessDataForAllSources e console csv cfgs)))
                \<and> (\<forall>shp dbf fs. fetchGives e (path cfg) shp
                      \<and> fetchGives e (str_replace (path cfg) ''.shp'' ''.dbf'') dbf
                      \<and> shapefileRead e shp dbf = Inr fs \<longrightarrow>
                   fst (processSource e tbl cfg)
                     = concat (map (\<lambda>f. fst (processFeature tbl (path cfg) (typeOverride cfg) f))
                                fs)))))"
proof (intro conjI allI impI)
  fix err
  assume f: "snd (fetchAndProcessDataForAllSources e console csv cfgs) = Inl err"
  show l: "snd (loadFlowData e csv) = Inl err"
  proof (cases "snd (loadFlowData e csv)")
    case (Inl e1)
    with run_failed[of e csv e1 console cfgs] f show ?thesis by simp
  next
    case (Inr tbl)
    with run_features[of e csv tbl console cfgs] f show ?thesis by simp
  qed
  show "fetch e csv = Inl err
          \<or> (\<exists>res. fetch e csv = Inr res
                \<and> (\<not> r_ok res \<and> err = Error (''Failed to fetch CSV: '' @ r_statusText res)
                   \<or> r_ok res \<and> r_text res = Inl err
                   \<or> (\<exists>t. r_ok res \<and> r_text res = Inr t
                         \<and> (\<exists>row \<in> set (data (papaParse e t)).
                               truthy (getProp row ''MapID'')
                               \<and> (\<forall>s. getProp row ''MapID'' \<noteq> JStr s)))))"
  proof (cases "fetch e csv")
    case (Inl e1)
    with l show ?thesis by (simp add: loadFlowData_snd)
  next
    case (Inr res)
    note fr = this
    show ?thesis
    proof (cases "r_ok res")
      case False
      with l fr show ?thesis by (simp add: loadFlowData_snd)
    next
      case True
      note ok = this
      show ?thesis
      proof (cases "r_text res")
        case (Inl e1)
        with l fr ok show ?thesis by (simp add: loadFlowData_snd)
      next
        case (Inr t)
        with l fr ok have "snd (processRows [] [] (data (papaParse e t))) = Inl err"
          by (simp add: loadFlowData_snd)
        from processRows_failed[OF this] fr ok Inr show ?thesis by simp
      qed
    qed
  qed
next
  assume "tableReadable e csv"
  then obtain tbl where t: "snd (loadFlowData e csv) = Inr tbl"
    using tableReadable_loads by blast
  have a: "snd (fetchAndProcessDataForAllSources e console csv cfgs)
              = Inr (concat (map (\<lambda>cfg. fst (processSource e tbl cfg)) cfgs))"
    using t by (rule run_features)
  have b: "fst (processSource e tbl cfg) = []
           \<and> Console Err (''Worker: Error processing shapefile '' @ path cfg @ '':'')
                (ArgError err)
               \<in> set (fst (fetchAndProcessDataForAllSources e console csv cfgs))"
    if c: "cfg \<in> set cfgs" and s: "sourceFailsWith e (path cfg) err" for cfg err
  proof -
    have r: "snd (readSource e (path cfg)) = Inl err" using s by (rule readSource_fails)
    have "errorProcessingShapefile (path cfg) err \<in> set (snd (processSource e tbl cfg))"
      using r by (rule processSource_failed(2))
    with c have "errorProcessingShapefile (path cfg) err \<in> set (snd (processSources e tbl cfgs))"
      by (auto simp: processSources_eq)
    then have "errorProcessingShapefile (path cfg) err
                 \<in> set (fst (fetchAndProcessDataForAllSources e console csv cfgs))"
      by (simp add: run_succeeded[OF t])
    with processSource_failed(1)[OF r] show ?thesis
      by (simp add: errorProcessingShapefile_def)
  qed
  have d: "fst (processSource e tbl cfg)
             = concat (map (\<lambda>f. fst (processFeature tbl (path cfg) (typeOverride cfg) f)) fs)"
    if "fetchGives e (path cfg) shp
        \<and> fetchGives e (str_replace (path cfg) ''.shp'' ''.dbf'') dbf
        \<and> shapefileRead e shp dbf = Inr fs" for cfg shp dbf fs
  proof -
    from that have "snd (readSource e (path cfg)) = Inr fs"
      using readSource_gives by blast
    then show ?thesis by (simp add: processSource_fst)
  qed
  from t a b d show "\<exists>tbl. snd (loadFlowData e csv) = Inr tbl
          \<and> snd (fetchAndProcessDataForAllSources e console csv cfgs)
              = Inr (concat (map (\<lambda>cfg. fst (processSource e tbl cfg)) cfgs))
          \<and> (\<forall>cfg \<in> set cfgs.
                (\<forall>err. sourceFailsWith e (path cfg) err \<longrightarrow>
                   fst (processSource e tbl cfg) = []
                   \<and> Console Err (''Worker: Error processing shapefile '' @ path cfg @ '':'')
                        (ArgError err)
                       \<in> set (fst (fetchAndProcessDataForAllSources e console csv cfgs)))
                \<and> (\<forall>shp dbf fs. fetchGives e (path cfg) shp
                      \<and> fetchGives e (str_replace (path cfg) ''.shp'' ''.dbf'') dbf
                      \<and> shapefileRead e shp dbf = Inr fs \<longrightarrow>
                   fst (processSource e tbl cfg)
                     = concat (map (\<lambda>f. fst (processFeature tbl (path cfg) (typeOverride cfg) f))
                                fs)))"
    by blast
qed

text \<open>
  C1, at the example: a table that cannot be fetched makes the run reject; with the
  table fetched, neither file of the weir source can be fetched and the run still
  resolves, to the features of the canal source and of the river source listed after
  it, and the console names the weir source with the failure that settled first.
\<close>

theorem run_fails_only_on_table_witness:
  "snd (fetchAndProcessDataForAllSources exampleEnv [] ''/fake/missing.csv'' exampleConfigs)
     = Inl (Error ''Network error'')
   \<and> fetch exampleEnv ''/fake/missing.csv'' = Inl (Error ''Network error'')
   \<and> tableReadable exampleEnv ''/fake/data.csv''
   \<and> sourceFailsWith exampleEnv ''/fake/weirs.shp'' (Error ''SHP fetch failed: Not Found'')
   \<and> snd (fetchAndProcessDataForAllSources exampleEnv [] ''/fake/data.csv'' exampleConfigs)
       = Inr exampleFeatures
   \<and> fst (processSource exampleEnv exampleTable
            \<lparr>path = ''/fake/weirs.shp'', typeOverride = Some Weir\<rparr>) = []
   \<and> Console Err ''Worker: Error processing shapefile /fake/weirs.shp:''
        (ArgError (Error ''SHP fetch failed: Not Found''))
       \<in> set (fst (fetchAndProcessDataForAllSources exampleEnv [] ''/fake/data.csv''
                     exampleConfigs))"
proof -
  let ?cfg = "\<lparr>path = ''/fake/weirs.shp'', typeOverride = Some Weir\<rparr>"
  let ?err = "Error ''SHP fetch failed: Not Found''"
  have rd: "tableReadable exampleEnv ''/fake/data.csv''"
  proof -
    have "fetch exampleEnv ''/fake/data.csv''
            = Inr \<lparr>r_ok = True, r_statusText = ''OK'', r_text = Inr ''MapID,1979,1980'',
                   r_arrayBuffer = Inr []\<rparr>"
      by (simp add: exampleEnv_def)
    moreover have "\<forall>row \<in> set (data (papaParse exampleEnv ''MapID,1979,1980'')).
        truthy (getProp row ''MapID'') \<longrightarrow> (\<exists>s. getProp row ''MapID'' = JStr s)"
      by (simp add: exampleEnv_def exampleRows_def getProp_def)
    ultimately show ?thesis unfolding tableReadable_def by force
  qed
  have dbf: "str_replace ''/fake/weirs.shp'' ''.shp'' ''.dbf'' = ''/fake/weirs.dbf''"
    by code_simp
  have sf: "sourceFailsWith exampleEnv (path ?cfg) ?err"
  proof -
    have "fetchFails exampleEnv ''/fake/weirs.shp'' ''SHP'' ?err"
      by (simp add: fetchFails_def exampleEnv_def)
    moreover have "fetchFails exampleEnv ''/fake/weirs.dbf'' ''DBF'' (Error ''Network error'')"
      by (simp add: fetchFails_def exampleEnv_def)
    moreover have "shpSettlesFirst exampleEnv ''/fake/weirs.shp''"
      by (simp add: exampleEnv_def)
    ultimately show ?thesis unfolding sourceFailsWith_def by (auto simp: dbf)
  qed
  have t: "snd (loadFlowData exampleEnv ''/fake/data.csv'') = Inr exampleTable" by code_simp
  have c: "?cfg \<in> set exampleConfigs" by (simp add: exampleConfigs_def)
  have v: "concat (map (\<lambda>cfg. fst (processSource exampleEnv exampleTable cfg)) exampleConfigs)
             = exampleFeatures" by code_simp
  note th = run_fails_only_on_table[of exampleEnv "[]" "''/fake/data.csv''" exampleConfigs]
  from th rd obtain tbl where
    tt: "snd (loadFlowData exampleEnv ''/fake/data.csv'') = Inr tbl"
    and a: "snd (fetchAndProcessDataForAllSources exampleEnv [] ''/fake/data.csv'' exampleConfigs)
             = Inr (concat (map (\<lambda>cfg. fst (processSource exampleEnv tbl cfg)) exampleConfigs))"
    and b: "\<forall>cfg \<in> set exampleConfigs. \<forall>err. sourceFailsWith exampleEnv (path cfg) err \<longrightarrow>
             fst (processSource exampleEnv tbl cfg) = []
             \<and> Console Err (''Worker: Error processing shapefile '' @ path cfg @ '':'')
                  (ArgError err)
                 \<in> set (fst (fetchAndProcessDataForAllSources exampleEnv [] ''/fake/data.csv''
                               exampleConfigs))"
    by blast
  from tt t have tbl: "tbl = exampleTable" by simp
  from b c sf have d: "fst (processSource exampleEnv tbl ?cfg) = []
      \<and> Console Err (''Worker: Error processing shapefile '' @ path ?cfg @ '':'') (ArgError ?err)
           \<in> set (fst (fetchAndProcessDataForAllSources exampleEnv [] ''/fake/data.csv''
                         exampleConfigs))"
    by blast
  have x: "snd (fetchAndProcessDataForAllSources exampleEnv [] ''/fake/missing.csv''
                  exampleConfigs) = Inl (Error ''Network error'')" by code_simp
  have y: "fetch exampleEnv ''/fake/missing.csv'' = Inl (Error ''Network error'')" by code_simp
  from run_fails_only_on_table[of exampleEnv "[]" "''/fake/missing.csv''" exampleConfigs] x
  have "snd (loadFlowData exampleEnv ''/fake/missing.csv'') = Inl (Error ''Network error'')"
    by blast
  with x y rd sf a v d tbl show ?thesis by simp
qed

lemma processFeature_pushed:
  assumes "ff \<in> set (fst (processFeature tbl pth ov feature))"
  shows "\<exists>mapId. resolveMapId (properties feature) = Some mapId \<and> mapId \<noteq> []
           \<and> f_id ff = mapId @ ''_'' @ typeName (p_type (f_properties ff))
           \<and> p_type (f_properties ff) = featureTypeOf pth ov (properties feature)
           \<and> p_name (f_properties ff) = resolveName (properties feature)
           \<and> p_flows (f_properties ff) = (case map_of tbl mapId of None \<Rightarrow> [] | Some fl \<Rightarrow> fl)
           \<and> normalizeGeometry (geometry feature) = Pushed (f_geometry ff)"
proof (cases "resolveMapId (properties feature)")
  case None
  with assms show ?thesis by (simp add: processFeature_def)
next
  case (Some mapId)
  show ?thesis
  proof (cases "mapId = []")
    case True
    with assms Some show ?thesis by (simp add: processFeature_def)
  next
    case False
    with assms Some show ?thesis
      by (cases "normalizeGeometry (geometry feature)")
         (simp_all add: processFeature_def Let_def)
  qed
qed

lemma processFeature_resolved:
  assumes "resolveMapId (properties feature) = Some mapId" and "mapId \<noteq> []"
  shows "processFeature tbl pth ov feature =
     (case normalizeGeometry (geometry feature) of
        Pushed g \<Rightarrow>
          ([\<lparr>f_id = mapId @ ''_'' @ typeName (featureTypeOf pth ov (properties feature)),
             f_geometry = g,
             f_properties =
               \<lparr>p_name = resolveName (properties feature),
                p_type = featureTypeOf pth ov (properties feature),
                p_flows = (case map_of tbl mapId of None \<Rightarrow> [] | Some fl \<Rightarrow> fl)\<rparr>\<rparr>],
           if map_of tbl mapId = None then [warnNoFlowData mapId pth] else [])
      | NoCoordinates \<Rightarrow>
          ([], (if map_of tbl mapId = None then [warnNoFlowData mapId pth] else [])
               @ [warnNoCoordinates mapId])
      | Unsupported \<Rightarrow>
          ([], (if map_of tbl mapId = None then [warnNoFlowData mapId pth] else [])
               @ [warnUnsupported mapId (geometry feature)]))"
  using assms by (simp add: processFeature_def Let_def split: normalized.splits)

lemma run_member:
  assumes "snd (fetchAndProcessDataForAllSources e console csv cfgs) = Inr feats"
    and "ff \<in> set feats"
  shows "\<exists>tbl. snd (loadFlowData e csv) = Inr tbl
           \<and> (\<exists>cfg \<in> set cfgs. \<exists>fs. snd (readSource e (path cfg)) = Inr fs
                 \<and> (\<exists>feature \<in> set fs.
                       ff \<in> set (fst (processFeature tbl (path cfg) (typeOverride cfg) feature))))"
proof (cases "snd (loadFlowData e csv)")
  case (Inl err)
  with run_failed[of e csv err console cfgs] assms(1) show ?thesis by simp
next
  case (Inr tbl)
  with run_features[of e csv tbl console cfgs] assms
  have "ff \<in> set (concat (map (\<lambda>cfg. fst (processSource e tbl cfg)) cfgs))" by simp
  then obtain cfg where c: "cfg \<in> set cfgs" and m: "ff \<in> set (fst (processSource e tbl cfg))"
    by auto
  from m obtain fs where r: "snd (readSource e (path cfg)) = Inr fs"
    and "ff \<in> set (concat (map (\<lambda>f. fst (processFeature tbl (path cfg) (typeOverride cfg) f)) fs))"
    by (cases "snd (readSource e (path cfg))") (simp_all add: processSource_fst)
  then obtain feature where "feature \<in> set fs"
    and "ff \<in> set (fst (processFeature tbl (path cfg) (typeOverride cfg) feature))" by auto
  with Inr c r show ?thesis by blast
qed

lemma run_snd:
  "snd (fetchAndProcessDataForAllSources e console csv cfgs) =
     (case snd (loadFlowData e csv) of
        Inl err \<Rightarrow> Inl err
      | Inr tbl \<Rightarrow>
          Inr (concat (map (\<lambda>cfg.
                 case snd (readSource e (path cfg)) of
                   Inl err \<Rightarrow> []
                 | Inr fs \<Rightarrow>
                     concat (map (\<lambda>f. fst (processFeature tbl (path cfg) (typeOverride cfg) f)) fs))
               cfgs)))"
proof (cases "snd (loadFlowData e csv)")
  case (Inl err)
  with run_failed[of e csv err console cfgs] show ?thesis by simp
next
  case (Inr tbl)
  with run_features[of e csv tbl console cfgs] show ?thesis by (simp add: processSource_fst)
qed

lemma loadFlowData_same:
  assumes "fetch e1 csv = fetch e2 csv" and "papaParse e1 = papaParse e2"
  shows "loadFlowData e1 csv = loadFlowData e2 csv"
  unfolding loadFlowData_def assms by (rule refl)

lemma fetchBuffer_same:
  "fetch e1 url = fetch e2 url \<Longrightarrow> fetchBuffer e1 url what = fetchBuffer e2 url what"
  by (simp add: fetchBuffer_def)

lemma readSource_same:
  assumes "fetch e1 pth = fetch e2 pth"
    and "fetch e1 (str_replace pth ''.shp'' ''.dbf'') = fetch e2 (str_replace pth ''.shp'' ''.dbf'')"
    and "shapefileRead e1 = shapefileRead e2"
  shows "(case snd (readSource e1 pth) of Inl err \<Rightarrow> [] | Inr fs \<Rightarrow> g fs)
       = (case snd (readSource e2 pth) of Inl err \<Rightarrow> [] | Inr fs \<Rightarrow> g fs)"
proof -
  have s: "fetchBuffer e1 pth ''SHP'' = fetchBuffer e2 pth ''SHP''"
    using assms(1) by (rule fetchBuffer_same)
  have d: "fetchBuffer e1 (str_replace pth ''.shp'' ''.dbf'') ''DBF''
         = fetchBuffer e2 (str_replace pth ''.shp'' ''.dbf'') ''DBF''"
    using assms(2) by (rule fetchBuffer_same)
  show ?thesis
    unfolding readSource_def s d assms(3)
    by (auto simp: Let_def split: sum.splits)
qed

lemma run_same:
  assumes "sameInputs e1 e2 csv cfgs"
  shows "snd (fetchAndProcessDataForAllSources e1 console1 csv cfgs)
       = snd (fetchAndProcessDataForAllSources e2 console2 csv cfgs)"
proof -
  from assms have "fetch e1 csv = fetch e2 csv" and "papaParse e1 = papaParse e2"
    unfolding sameInputs_def by blast+
  then have l: "loadFlowData e1 csv = loadFlowData e2 csv"
    by (rule loadFlowData_same)
  from assms have sr: "shapefileRead e1 = shapefileRead e2"
    unfolding sameInputs_def by blast
  define src where "src = (\<lambda>e tbl (cfg :: shapefileConfig).
      case snd (readSource e (path cfg)) of
        Inl err \<Rightarrow> []
      | Inr fs \<Rightarrow>
          concat (map (\<lambda>f. fst (processFeature tbl (path cfg) (typeOverride cfg) f)) fs))"
  have r: "src e1 tbl cfg = src e2 tbl cfg" if "cfg \<in> set cfgs" for cfg tbl
  proof -
    from assms that have a: "fetch e1 (path cfg) = fetch e2 (path cfg)"
      unfolding sameInputs_def by blast
    from assms that have b: "fetch e1 (str_replace (path cfg) ''.shp'' ''.dbf'')
        = fetch e2 (str_replace (path cfg) ''.shp'' ''.dbf'')"
      unfolding sameInputs_def by blast
    show ?thesis unfolding src_def
      by (rule readSource_same[OF a b sr,
            of "\<lambda>fs. concat (map (\<lambda>f. fst (processFeature tbl (path cfg)
                                                (typeOverride cfg) f)) fs)"])
  qed
  have m: "map (src e1 tbl) cfgs = map (src e2 tbl) cfgs" for tbl
    by (rule map_cong[OF refl]) (rule r)
  have s: "snd (fetchAndProcessDataForAllSources e console csv cfgs) =
      (case snd (loadFlowData e csv) of
         Inl err \<Rightarrow> Inl err
       | Inr tbl \<Rightarrow> Inr (concat (map (src e tbl) cfgs)))" for e console
    unfolding src_def by (rule run_snd)
  show ?thesis
  proof (cases "snd (loadFlowData e2 csv)")
    case (Inl err)
    then show ?thesis unfolding s l by (simp only: sum.case)
  next
    case (Inr tbl)
    then show ?thesis unfolding s l by (simp only: sum.case m)
  qed
qed

lemma run_append:
  assumes "snd (fetchAndProcessDataForAllSources e console csv cfgs1) = Inr feats1"
    and "snd (fetchAndProcessDataForAllSources e console csv cfgs2) = Inr feats2"
  shows "snd (fetchAndProcessDataForAllSources e console csv (cfgs1 @ cfgs2))
           = Inr (feats1 @ feats2)"
proof (cases "snd (loadFlowData e csv)")
  case (Inl err)
  with assms(1) show ?thesis unfolding run_snd by (simp only: sum.case sum.distinct)
next
  case (Inr tbl)
  with assms show ?thesis unfolding run_snd
    by (simp only: sum.case sum.inject map_append concat_append)
qed

text \<open>
  C8. The list a run resolves to (or the error it rejects with) is fixed by its inputs:
  two runs on identical inputs, the second after the first or at any other time,
  whatever the console held before, whatever order the two fetches of a source settle
  in and whatever any other address answers, give the same result. The list holds the
  features of the sources in the order of the configuration, and within a source in
  the order of its decoded features; listing further sources after the first ones
  appends their features.
\<close>

theorem run_deterministic:
  assumes "sameInputs e1 e2 csv cfgs"
  shows "snd (fetchAndProcessDataForAllSources e1 console1 csv cfgs)
           = snd (fetchAndProcessDataForAllSources e2 console2 csv cfgs)
       \<and> snd (fetchAndProcessDataForAllSources e2
                (fst (fetchAndProcessDataForAllSources e1 console1 csv cfgs)) csv cfgs)
           = snd (fetchAndProcessDataForAllSources e1 console1 csv cfgs)
       \<and> (\<forall>tbl. snd (loadFlowData e1 csv) = Inr tbl \<longrightarrow>
             snd (fetchAndProcessDataForAllSources e1 console1 csv cfgs) =
               Inr (concat (map (\<lambda>cfg.
                      case snd (readSource e1 (path cfg)) of
                        Inl err \<Rightarrow> []
                      | Inr fs \<Rightarrow>
                          concat (map (\<lambda>f. fst (processFeature tbl (path cfg) (typeOverride cfg) f))
                                    fs))
                    cfgs)))
       \<and> (\<forall>more feats feats'.
             snd (fetchAndProcessDataForAllSources e1 console1 csv cfgs) = Inr feats
             \<and> snd (fetchAndProcessDataForAllSources e1 console1 csv more) = Inr feats' \<longrightarrow>
             snd (fetchAndProcessDataForAllSources e1 console1 csv (cfgs @ more))
               = Inr (feats @ feats'))"
proof (intro conjI allI impI)
  show "snd (fetchAndProcessDataForAllSources e1 console1 csv cfgs)
           = snd (fetchAndProcessDataForAllSources e2 console2 csv cfgs)"
    using assms by (rule run_same)
  show "snd (fetchAndProcessDataForAllSources e2
                (fst (fetchAndProcessDataForAllSources e1 console1 csv cfgs)) csv cfgs)
           = snd (fetchAndProcessDataForAllSources e1 console1 csv cfgs)"
    by (rule run_same[OF assms, symmetric])
next
  fix tbl
  assume "snd (loadFlowData e1 csv) = Inr tbl"
  then show "snd (fetchAndProcessDataForAllSources e1 console1 csv cfgs) =
               Inr (concat (map (\<lambda>cfg.
                      case snd (readSource e1 (path cfg)) of
                        Inl err \<Rightarrow> []
                      | Inr fs \<Rightarrow>
                          concat (map (\<lambda>f. fst (processFeature tbl (path cfg) (typeOverride cfg) f))
                                    fs))
                    cfgs))"
    by (simp add: run_snd)
next
  fix more feats feats'
  assume "snd (fetchAndProcessDataForAllSources e1 console1 csv cfgs) = Inr feats
             \<and> snd (fetchAndProcessDataForAllSources e1 console1 csv more) = Inr feats'"
  then show "snd (fetchAndProcessDataForAllSources e1 console1 csv (cfgs @ more))
               = Inr (feats @ feats')"
    using run_append by blast
qed

theorem run_deterministic_witness:
  "sameInputs exampleEnv exampleEnvLater ''/fake/data.csv'' exampleConfigs
   \<and> shpSettlesFirst exampleEnv \<noteq> shpSettlesFirst exampleEnvLater
   \<and> snd (fetchAndProcessDataForAllSources exampleEnv [] ''/fake/data.csv'' exampleConfigs)
       = Inr exampleFeatures
   \<and> snd (fetchAndProcessDataForAllSources exampleEnvLater
            (fst (fetchAndProcessDataForAllSources exampleEnv [] ''/fake/data.csv''
                    exampleConfigs))
            ''/fake/data.csv'' exampleConfigs)
       = Inr exampleFeatures"
proof -
  have dbf: "str_replace ''/fake/canals.shp'' ''.shp'' ''.dbf'' = ''/fake/canals.dbf''"
    "str_replace ''/fake/weirs.shp'' ''.shp'' ''.dbf'' = ''/fake/weirs.dbf''"
    "str_replace ''/fake/rivers.shp'' ''.shp'' ''.dbf'' = ''/fake/rivers.dbf''"
    by code_simp+
  have s: "sameInputs exampleEnv exampleEnvLater ''/fake/data.csv'' exampleConfigs"
    unfolding sameInputs_def by (simp add: exampleEnvLater_def exampleConfigs_def dbf)
  have n: "shpSettlesFirst exampleEnv \<noteq> shpSettlesFirst exampleEnvLater"
    by (simp add: exampleEnvLater_def exampleEnv_def fun_eq_iff)
  have v: "snd (fetchAndProcessDataForAllSources exampleEnv [] ''/fake/data.csv'' exampleConfigs)
             = Inr exampleFeatures" by code_simp
  from run_deterministic[OF s, of "[]" "[]"]
  have "snd (fetchAndProcessDataForAllSources exampleEnvLater
            (fst (fetchAndProcessDataForAllSources exampleEnv [] ''/fake/data.csv''
                    exampleConfigs))
            ''/fake/data.csv'' exampleConfigs)
       = snd (fetchAndProcessDataForAllSources exampleEnv [] ''/fake/data.csv'' exampleConfigs)"
    by blast
  with v s n show ?thesis by (simp only: simp_thms)
qed

text \<open>
  C3. For a feature whose identifier resolves: a multi-polyline with at least one part
  is normalised to a polyline with exactly the coordinates of its first part, and the
  feature pushed carries that polyline; a multi-polyline with no part pushes nothing
  and writes a warning; a geometry of any kind other than point, polyline and
  multi-polyline pushes nothing and writes a warning that names the kind.
\<close>

theorem geometry_normalization:
  assumes "resolveMapId (properties feature) = Some mapId" and "mapId \<noteq> []"
  shows "(\<forall>part parts. geometry feature = Some (MultiLineString (part # parts)) \<longrightarrow>
            normalizeGeometry (geometry feature) = Pushed (LineString part)
            \<and> (\<exists>ff. fst (processFeature tbl pth ov feature) = [ff]
                     \<and> f_geometry ff = LineString part))
       \<and> (geometry feature = Some (MultiLineString []) \<longrightarrow>
            fst (processFeature tbl pth ov feature) = []
            \<and> Console Warn (''Worker: MultiLineString feature for MapID '' @ mapId
                             @ '' has no coordinates. Skipping.'') NoArg
                \<in> set (snd (processFeature tbl pth ov feature)))
       \<and> (\<forall>g. geometry feature = Some g
                \<and> geometryType g \<notin> {''Point'', ''LineString'', ''MultiLineString''} \<longrightarrow>
            fst (processFeature tbl pth ov feature) = []
            \<and> Console Warn (''Worker: Feature for MapID '' @ mapId
                             @ '' has unsupported geometry type: '' @ geometryType g
                             @ ''. Skipping.'') NoArg
                \<in> set (snd (processFeature tbl pth ov feature)))"
proof (intro conjI allI impI)
  fix part parts
  assume g: "geometry feature = Some (MultiLineString (part # parts))"
  then show n: "normalizeGeometry (geometry feature) = Pushed (LineString part)"
    by (simp add: normalizeGeometry_def)
  show "\<exists>ff. fst (processFeature tbl pth ov feature) = [ff] \<and> f_geometry ff = LineString part"
    by (simp add: processFeature_resolved[OF assms] n)
next
  assume g: "geometry feature = Some (MultiLineString [])"
  then have n: "normalizeGeometry (geometry feature) = NoCoordinates"
    by (simp add: normalizeGeometry_def)
  show "fst (processFeature tbl pth ov feature) = []"
    by (simp add: processFeature_resolved[OF assms] n)
  show "Console Warn (''Worker: MultiLineString feature for MapID '' @ mapId
                             @ '' has no coordinates. Skipping.'') NoArg
                \<in> set (snd (processFeature tbl pth ov feature))"
    by (simp add: processFeature_resolved[OF assms] n warnNoCoordinates_def)
next
  fix g
  assume "geometry feature = Some g
                \<and> geometryType g \<notin> {''Point'', ''LineString'', ''MultiLineString''}"
  then have gg: "geometry feature = Some g"
    and n: "normalizeGeometry (geometry feature) = Unsupported"
    by (cases g; simp add: normalizeGeometry_def)+
  show "fst (processFeature tbl pth ov feature) = []"
    by (simp add: processFeature_resolved[OF assms] n)
  show "Console Warn (''Worker: Feature for MapID '' @ mapId
                             @ '' has unsupported geometry type: '' @ geometryType g
                             @ ''. Skipping.'') NoArg
                \<in> set (snd (processFeature tbl pth ov feature))"
  proof -
    have "warnUnsupported mapId (geometry feature) \<in> set (snd (processFeature tbl pth ov feature))"
      by (simp add: processFeature_resolved[OF assms] n)
    then show ?thesis by (simp add: gg warnUnsupported_def geometryTypeText_def)
  qed
qed

theorem geometry_normalization_witness:
  "resolveMapId (properties (canalFeatures ! 1)) = Some ''C1''
   \<and> resolveMapId (properties (canalFeatures ! 3)) = Some ''Poly1''
   \<and> normalizeGeometry (geometry (canalFeatures ! 1))
       = Pushed (LineString [[Finite 4, Finite 4], [Finite 5, Finite 5]])
   \<and> map f_geometry (fst (processFeature exampleTable ''/fake/canals.shp'' None (canalFeatures ! 1)))
       = [LineString [[Finite 4, Finite 4], [Finite 5, Finite 5]]]
   \<and> fst (processFeature exampleTable ''/fake/canals.shp'' None (canalFeatures ! 3)) = []
   \<and> Console Warn ''Worker: Feature for MapID Poly1 has unsupported geometry type: Polygon. Skipping.''
        NoArg
       \<in> set (snd (processFeature exampleTable ''/fake/canals.shp'' None (canalFeatures ! 3)))"
proof -
  let ?part = "[[Finite 4, Finite 4], [Finite 5, Finite 5]]"
  let ?ring = "[[[Finite 0, Finite 0], [Finite 1, Finite 1], [Finite 0, Finite 1],
                 [Finite 0, Finite 0]]]"
  have i1: "resolveMapId (properties (canalFeatures ! 1)) = Some ''C1''" by code_simp
  have i3: "resolveMapId (properties (canalFeatures ! 3)) = Some ''Poly1''" by code_simp
  have g1: "geometry (canalFeatures ! 1)
              = Some (MultiLineString (?part # [[[Finite 6, Finite 6], [Finite 7, Finite 7]]]))"
    by code_simp
  have g3: "geometry (canalFeatures ! 3) = Some (Polygon ?ring)
      \<and> geometryType (Polygon ?ring) \<notin> {''Point'', ''LineString'', ''MultiLineString''}"
    by code_simp
  from geometry_normalization[OF i1, of exampleTable "''/fake/canals.shp''" None] g1
  have a: "normalizeGeometry (geometry (canalFeatures ! 1)) = Pushed (LineString ?part)
      \<and> (\<exists>ff. fst (processFeature exampleTable ''/fake/canals.shp'' None (canalFeatures ! 1)) = [ff]
               \<and> f_geometry ff = LineString ?part)"
    by blast
  from geometry_normalization[OF i3, of exampleTable "''/fake/canals.shp''" None] g3
  have b: "fst (processFeature exampleTable ''/fake/canals.shp'' None (canalFeatures ! 3)) = []
      \<and> Console Warn (''Worker: Feature for MapID '' @ ''Poly1''
                       @ '' has unsupported geometry type: '' @ geometryType (Polygon ?ring)
                       @ ''. Skipping.'') NoArg
          \<in> set (snd (processFeature exampleTable ''/fake/canals.shp'' None (canalFeatures ! 3)))"
    by blast
  from a have a': "map f_geometry
        (fst (processFeature exampleTable ''/fake/canals.shp'' None (canalFeatures ! 1)))
      = [LineString ?part]" by auto
  from i1 i3 a a' b show ?thesis by simp
qed

text \<open>
  C6. A feature whose resolved identifier has no entry in the flow table is not
  skipped for that: the table never decides whether a feature is pushed; the warning
  naming the identifier and the source is written; every feature pushed has the empty
  flow mapping; and when the geometry is one the worker keeps, exactly one feature is
  pushed, with the empty flow mapping.
\<close>

theorem unmatched_identifier_empty_flows:
  assumes "resolveMapId (properties feature) = Some mapId" and "mapId \<noteq> []"
    and "map_of tbl mapId = None"
  shows "Console Warn (''Worker: No flow data found for MapID '' @ mapId @ '' from '' @ pth
                       @ ''. Assigning empty flows.'') NoArg
           \<in> set (snd (processFeature tbl pth ov feature))
       \<and> (\<forall>ff \<in> set (fst (processFeature tbl pth ov feature)). p_flows (f_properties ff) = [])
       \<and> (\<forall>tbl'. length (fst (processFeature tbl pth ov feature))
                   = length (fst (processFeature tbl' pth ov feature)))
       \<and> (\<forall>g. normalizeGeometry (geometry feature) = Pushed g \<longrightarrow>
             fst (processFeature tbl pth ov feature) =
               [\<lparr>f_id = mapId @ ''_'' @ typeName (featureTypeOf pth ov (properties feature)),
                 f_geometry = g,
                 f_properties =
                   \<lparr>p_name = resolveName (properties feature),
                    p_type = featureTypeOf pth ov (properties feature),
                    p_flows = []\<rparr>\<rparr>])"
proof (intro conjI allI impI ballI)
  show "Console Warn (''Worker: No flow data found for MapID '' @ mapId @ '' from '' @ pth
                       @ ''. Assigning empty flows.'') NoArg
           \<in> set (snd (processFeature tbl pth ov feature))"
    using assms(3)
    by (cases "normalizeGeometry (geometry feature)")
       (simp_all add: processFeature_resolved[OF assms(1,2)] warnNoFlowData_def)
next
  fix ff
  assume "ff \<in> set (fst (processFeature tbl pth ov feature))"
  from processFeature_pushed[OF this] assms show "p_flows (f_properties ff) = []" by auto
next
  fix tbl'
  show "length (fst (processFeature tbl pth ov feature))
          = length (fst (processFeature tbl' pth ov feature))"
    by (cases "normalizeGeometry (geometry feature)")
       (simp_all add: processFeature_resolved[OF assms(1,2)])
next
  fix g
  assume "normalizeGeometry (geometry feature) = Pushed g"
  with assms(3) show "fst (processFeature tbl pth ov feature) =
               [\<lparr>f_id = mapId @ ''_'' @ typeName (featureTypeOf pth ov (properties feature)),
                 f_geometry = g,
                 f_properties =
                   \<lparr>p_name = resolveName (properties feature),
                    p_type = featureTypeOf pth ov (properties feature),
                    p_flows = []\<rparr>\<rparr>]"
    by (simp add: processFeature_resolved[OF assms(1,2)])
qed

theorem unmatched_identifier_empty_flows_witness:
  "resolveMapId (properties (canalFeatures ! 2)) = Some ''C2''
   \<and> map_of exampleTable ''C2'' = None
   \<and> fst (processFeature exampleTable ''/fake/canals.shp'' None (canalFeatures ! 2))
       = [\<lparr>f_id = ''C2_canal'',
           f_geometry = LineString [[Finite 2, Finite 2], [Finite 3, Finite 3]],
           f_properties = \<lparr>p_name = ''Canal Gamma'', p_type = Canal, p_flows = []\<rparr>\<rparr>]
   \<and> Console Warn
        ''Worker: No flow data found for MapID C2 from /fake/canals.shp. Assigning empty flows.''
        NoArg
       \<in> set (snd (processFeature exampleTable ''/fake/canals.shp'' None (canalFeatures ! 2)))"
proof -
  let ?g = "LineString [[Finite 2, Finite 2], [Finite 3, Finite 3]]"
  have i: "resolveMapId (properties (canalFeatures ! 2)) = Some ''C2''" by code_simp
  have n: "''C2'' \<noteq> []" by simp
  have t: "map_of exampleTable ''C2'' = None" by code_simp
  have g: "normalizeGeometry (geometry (canalFeatures ! 2)) = Pushed ?g" by code_simp
  have v: "\<lparr>f_id = ''C2'' @ ''_''
                 @ typeName (featureTypeOf ''/fake/canals.shp'' None (properties (canalFeatures ! 2))),
             f_geometry = ?g,
             f_properties =
               \<lparr>p_name = resolveName (properties (canalFeatures ! 2)),
                p_type = featureTypeOf ''/fake/canals.shp'' None (properties (canalFeatures ! 2)),
                p_flows = []\<rparr>\<rparr>
           = \<lparr>f_id = ''C2_canal'', f_geometry = ?g,
              f_properties = \<lparr>p_name = ''Canal Gamma'', p_type = Canal, p_flows = []\<rparr>\<rparr>"
    by code_simp
  from unmatched_identifier_empty_flows[OF i n t, of "''/fake/canals.shp''" None] g v
  show ?thesis using i t by simp
qed

text \<open>
  C2. The code composes the \<open>id\<close> of a feature from the resolved identifier of its
  geometry feature, \<open>_\<close> and its category, and its comment on that line reads
  \<^verbatim>\<open>Create a unique ID\<close>. The ids of a list are not pairwise distinct: in the example
  run the canal source holds two segments with the identifier \<open>C1\<close>, both are
  classified as canals, and both features of the list get the id \<open>C1_canal\<close>.
\<close>

theorem feature_ids_not_distinct:
  "snd (fetchAndProcessDataForAllSources exampleEnv [] ''/fake/data.csv'' exampleConfigs)
     = Inr exampleFeatures
   \<and> map f_id exampleFeatures = [''C1_canal'', ''C1_canal'', ''C2_canal'', ''R1_river'']
   \<and> \<not> distinct (map f_id exampleFeatures)"
  by code_simp

text \<open>
  C5, as the code has it. No flow value of a feature of the list is \<open>NaN\<close>; the flow
  mapping of a feature is always there: it is an entry of the flow table or the empty
  mapping.
\<close>

theorem flows_never_NaN:
  assumes "snd (fetchAndProcessDataForAllSources e console csv cfgs) = Inr feats"
    and "ff \<in> set feats"
  shows "(\<forall>(year, v) \<in> set (p_flows (f_properties ff)). \<not> isNaN v)
       \<and> (\<exists>tbl. snd (loadFlowData e csv) = Inr tbl
             \<and> (p_flows (f_properties ff) = [] \<or> p_flows (f_properties ff) \<in> snd ` set tbl))"
proof -
  from run_member[OF assms] obtain tbl cfg fs feature where
    t: "snd (loadFlowData e csv) = Inr tbl"
    and "cfg \<in> set cfgs" and "snd (readSource e (path cfg)) = Inr fs"
    and "feature \<in> set fs"
    and m: "ff \<in> set (fst (processFeature tbl (path cfg) (typeOverride cfg) feature))"
    by blast
  from processFeature_pushed[OF m] obtain mapId where
    p: "p_flows (f_properties ff) = (case map_of tbl mapId of None \<Rightarrow> [] | Some fl \<Rightarrow> fl)"
    by blast
  have n: "noNaNTable tbl" using t by (rule loadFlowData_noNaN)
  show ?thesis
  proof (cases "map_of tbl mapId")
    case None
    with p t show ?thesis by simp
  next
    case (Some fl)
    then have i: "(mapId, fl) \<in> set tbl" by (rule map_of_SomeD)
    with n have "\<forall>(year, v) \<in> set fl. \<not> isNaN v" unfolding noNaNTable_def by blast
    moreover from i have "fl \<in> snd ` set tbl" by force
    ultimately show ?thesis using p t Some by simp
  qed
qed

theorem flows_never_NaN_witness:
  "snd (fetchAndProcessDataForAllSources exampleEnv [] ''/fake/data.csv'' exampleConfigs)
     = Inr exampleFeatures
   \<and> exampleFeatures ! 3 \<in> set exampleFeatures
   \<and> p_flows (f_properties (exampleFeatures ! 3)) = [(''1979'', PosInfinity), (''1980'', Finite 102)]
   \<and> list_all (\<lambda>(year, v). \<not> isNaN v) (p_flows (f_properties (exampleFeatures ! 3)))"
proof -
  have a: "snd (fetchAndProcessDataForAllSources exampleEnv [] ''/fake/data.csv'' exampleConfigs)
             = Inr exampleFeatures" by code_simp
  have b: "exampleFeatures ! 3 \<in> set exampleFeatures" by (simp add: exampleFeatures_def)
  have c: "p_flows (f_properties (exampleFeatures ! 3))
             = [(''1979'', PosInfinity), (''1980'', Finite 102)]"
    by (simp add: exampleFeatures_def)
  from flows_never_NaN[OF a b]
  have "\<forall>(year, v) \<in> set (p_flows (f_properties (exampleFeatures ! 3))). \<not> isNaN v" by blast
  then have "list_all (\<lambda>(year, v). \<not> isNaN v) (p_flows (f_properties (exampleFeatures ! 3)))"
    by (simp add: list_all_iff)
  with a b c show ?thesis by blast
qed

text \<open>
  C5, as stated, fails: a flow value need not be finite. The cell \<open>Infinity\<close> is read by
  \<^verbatim>\<open>parseFloat\<close> as the infinity, which is not \<open>NaN\<close> and is stored as it is; in the
  example run the feature \<open>R1_river\<close> carries it.
\<close>

theorem flow_value_not_finite:
  "snd (fetchAndProcessDataForAllSources exampleEnv [] ''/fake/data.csv'' exampleConfigs)
     = Inr exampleFeatures
   \<and> parseFloat ''Infinity'' = PosInfinity
   \<and> map_of (p_flows (f_properties (exampleFeatures ! 3))) ''1979'' = Some PosInfinity
   \<and> \<not> isFinite PosInfinity"
  by code_simp

section \<open>Properties of the background execution shim\<close>

lemma deliverAll_dead: "\<not> workerAlive s \<Longrightarrow> deliverAll s evs = s"
  unfolding deliverAll_def by (induction evs) (auto simp: deliver_def)

lemma deliver_posted: "posted (deliver s ev) = posted s"
  by (auto simp: deliver_def onmessage_def onerror_def Let_def
      split: event.splits workerMsg.splits)

lemma deliverAll_posted: "posted (deliverAll s evs) = posted s"
  unfolding deliverAll_def by (induction evs arbitrary: s) (auto simp: deliver_posted)

lemma deliver_terminates: "workerAlive s \<Longrightarrow> \<not> workerAlive (deliver s ev)"
  by (auto simp: deliver_def onmessage_def onerror_def Let_def
      split: event.splits workerMsg.splits)

lemma deliverAll_Cons:
  "workerAlive s \<Longrightarrow> deliverAll s (ev # evs) = deliver s ev"
proof -
  assume "workerAlive s"
  then have "\<not> workerAlive (deliver s ev)" by (rule deliver_terminates)
  then have "deliverAll (deliver s ev) evs = deliver s ev" by (rule deliverAll_dead)
  then show ?thesis by (simp add: deliverAll_def)
qed

lemma moduleInit_True:
  "moduleInit True initialShim =
     \<lparr>workerDataCache = None, workerErrorCache = None, isLoadingData = True,
      posted = [''loadData''], workerAlive = True\<rparr>"
  by (simp add: moduleInit_def initialShim_def)

lemma moduleInit_False:
  "moduleInit False initialShim =
     \<lparr>workerDataCache = None, workerErrorCache = Some ''Web Workers are not supported.'',
      isLoadingData = False, posted = [], workerAlive = False\<rparr>"
  by (simp add: moduleInit_def initialShim_def)

lemma checkData_init: "checkData (moduleInit True initialShim) = Pending"
  by (simp add: moduleInit_True checkData_def)

lemma stateAt_posted: "posted (stateAt w evs k) = (if w then [''loadData''] else [])"
  by (simp add: stateAt_def deliverAll_posted moduleInit_True moduleInit_False)

lemma stateAt_zero: "stateAt w evs 0 = moduleInit w initialShim"
  by (simp add: stateAt_def deliverAll_def)

lemma stateAt_pos:
  assumes "0 < k"
  shows "stateAt True (ev # evs) k = deliver (moduleInit True initialShim) ev"
proof -
  from assms obtain j where k: "k = Suc j" by (cases k) simp_all
  have "workerAlive (moduleInit True initialShim)" by (simp add: moduleInit_True)
  then have "deliverAll (moduleInit True initialShim) (ev # take j evs)
               = deliver (moduleInit True initialShim) ev"
    by (rule deliverAll_Cons)
  then show ?thesis unfolding stateAt_def k by simp
qed

lemma stateAt_False: "stateAt False evs k = moduleInit False initialShim"
proof -
  have "\<not> workerAlive (moduleInit False initialShim)" by (simp add: moduleInit_False)
  then show ?thesis unfolding stateAt_def by (rule deliverAll_dead)
qed

lemma checkData_False:
  "checkData (moduleInit False initialShim) = Rejected ''Web Workers are not supported.''"
  by (simp add: moduleInit_False checkData_def)

lemma checkData_message:
  "checkData (deliver (moduleInit True initialShim) (WorkerMessage m)) =
     (case m of
        DataLoaded payload \<Rightarrow> Resolved payload
      | DataError payload \<Rightarrow>
          Rejected (if payload = [] then ''Failed to load data from worker.'' else payload)
      | OtherMsg \<Rightarrow> Rejected ''Failed to load data from worker.'')"
proof (cases m)
  case (DataLoaded d)
  then show ?thesis by (simp add: moduleInit_True deliver_def onmessage_def checkData_def)
next
  case (DataError msg)
  then show ?thesis
    by (cases msg) (simp_all add: moduleInit_True deliver_def onmessage_def checkData_def)
next
  case OtherMsg
  then show ?thesis by (simp add: moduleInit_True deliver_def onmessage_def checkData_def)
qed

lemma checkData_error:
  "checkData (deliver (moduleInit True initialShim) (WorkerErrorEvent msg)) =
     Rejected (if msg = [] then ''Failed to load data from worker.'' else msg)"
  by (cases msg) (simp_all add: moduleInit_True deliver_def onerror_def checkData_def)

lemma checkData_event:
  "checkData (deliver (moduleInit True initialShim) ev) =
     (case ev of
        WorkerMessage (DataLoaded payload) \<Rightarrow> Resolved payload
      | WorkerMessage (DataError payload) \<Rightarrow>
          Rejected (if payload = [] then ''Failed to load data from worker.''
                    else payload)
      | WorkerMessage OtherMsg \<Rightarrow> Rejected ''Failed to load data from worker.''
      | WorkerErrorEvent message \<Rightarrow>
          Rejected (if message = [] then ''Failed to load data from worker.''
                    else message))"
proof (cases ev)
  case (WorkerMessage m)
  show ?thesis unfolding WorkerMessage checkData_message by (cases m) simp_all
next
  case (WorkerErrorEvent msg)
  show ?thesis unfolding WorkerErrorEvent checkData_error by simp
qed

lemma checkData_settles:
  "checkData (deliver (moduleInit True initialShim) ev) \<noteq> Pending"
proof (cases ev)
  case (WorkerMessage m)
  then show ?thesis unfolding WorkerMessage checkData_message by (cases m) simp_all
next
  case (WorkerErrorEvent msg)
  then show ?thesis unfolding WorkerErrorEvent checkData_error by simp
qed

lemma queryFn_waits:
  "\<forall>k \<in> set looks. k = 0 \<Longrightarrow> queryFn (map (stateAt True evs) looks) = Pending"
  by (induction looks) (simp_all add: stateAt_zero checkData_init)

lemma queryFn_settles:
  assumes "\<exists>k \<in> set looks. 0 < k"
  shows "queryFn (map (stateAt True (ev # evs)) looks)
           = checkData (deliver (moduleInit True initialShim) ev)"
  using assms
proof (induction looks)
  case Nil
  then show ?case by simp
next
  case (Cons k looks)
  show ?case
  proof (cases "0 < k")
    case True
    from stateAt_pos[OF True] have "stateAt True (ev # evs) k
        = deliver (moduleInit True initialShim) ev" .
    then show ?thesis using checkData_settles[of ev] by (simp split: outcome.splits)
  next
    case False
    then have k: "k = 0" by simp
    with Cons.prems have "\<exists>k \<in> set looks. 0 < k" by simp
    from Cons.IH[OF this] show ?thesis by (simp add: k stateAt_zero checkData_init)
  qed
qed

lemma workerReplies_loadData:
  "workerReplies e console [''loadData''] =
     [case snd (loadAndProcessData e console) of
        Inr processedData \<Rightarrow> DataLoaded processedData
      | Inl err \<Rightarrow> DataError (errorMessage err)]"
  by (simp add: workerReplies_def workerOnMessage_def split: sum.splits)

text \<open>
  C9. The module sends \<^verbatim>\<open>'loadData'\<close> to its worker exactly once, when it is loaded,
  and never afterwards, whatever the event loop delivers and however many requests are
  made; where workers do not exist it sends nothing and every request is rejected at
  once. For that one message the worker runs the reconciliation once and posts one
  reply, the list of the run or the message of its error. A request made while the run
  is in flight waits: each of its looks before the worker's event finds nothing settled.
  After the first event of the worker, whether a reply or an error event, every request
  with a look at or after it settles, and all such requests with the same outcome: the
  list of a \<^verbatim>\<open>dataLoaded\<close> reply, the message of a \<^verbatim>\<open>dataError\<close> reply or of an error
  event as the failure reason (the fixed message when that one is empty). With the
  worker's own reply as the event, the outcome is the result of the one run. The
  module's variables are the same after any number of further events, so the outcome
  stays and no second run is started.

  Two things are taken from the platform and not from this module: an event of a
  terminated worker is not delivered (both handlers end with \<^verbatim>\<open>worker.terminate()\<close>),
  and the query library calls \<^verbatim>\<open>queryFn\<close> for the requests it does not answer from
  its own cache; a retry of the library is one more request here.
\<close>

theorem single_flight:
  "posted (stateAt w evs k) = (if w then [''loadData''] else [])
   \<and> workerReplies e console (posted (stateAt True evs k)) =
       [case snd (loadAndProcessData e console) of
          Inr processedData \<Rightarrow> DataLoaded processedData
        | Inl err \<Rightarrow> DataError (errorMessage err)]
   \<and> workerReplies e console (posted (stateAt False evs k)) = []
   \<and> queryFn (map (stateAt False evs) (k # looks)) = Rejected ''Web Workers are not supported.''
   \<and> queryFn (map (stateAt True evs) (replicate n 0)) = Pending
   \<and> (\<forall>looks1 looks2. (\<exists>k \<in> set looks1. 0 < k) \<and> (\<exists>k \<in> set looks2. 0 < k) \<longrightarrow>
         queryFn (map (stateAt True (ev # evs)) looks1)
           = queryFn (map (stateAt True (ev # evs)) looks2)
         \<and> queryFn (map (stateAt True (ev # evs)) looks1) \<noteq> Pending
         \<and> queryFn (map (stateAt True (ev # evs)) looks1) =
             (case ev of
                WorkerMessage (DataLoaded payload) \<Rightarrow> Resolved payload
              | WorkerMessage (DataError payload) \<Rightarrow>
                  Rejected (if payload = [] then ''Failed to load data from worker.''
                            else payload)
              | WorkerMessage OtherMsg \<Rightarrow> Rejected ''Failed to load data from worker.''
              | WorkerErrorEvent message \<Rightarrow>
                  Rejected (if message = [] then ''Failed to load data from worker.''
                            else message)))
   \<and> (\<forall>looks1. (\<exists>k \<in> set looks1. 0 < k) \<longrightarrow>
         queryFn (map (stateAt True
                    (map WorkerMessage (workerReplies e console (posted (stateAt True [] 0)))
                     @ evs)) looks1) =
           (case snd (loadAndProcessData e console) of
              Inr processedData \<Rightarrow> Resolved processedData
            | Inl err \<Rightarrow>
                Rejected (if errorMessage err = [] then ''Failed to load data from worker.''
                          else errorMessage err)))
   \<and> (\<forall>k'. 0 < k' \<longrightarrow> stateAt True (ev # evs) k' = stateAt True [ev] 1)"
proof (intro conjI allI impI)
  show "posted (stateAt w evs k) = (if w then [''loadData''] else [])"
    by (rule stateAt_posted)
  show "workerReplies e console (posted (stateAt True evs k)) =
       [case snd (loadAndProcessData e console) of
          Inr processedData \<Rightarrow> DataLoaded processedData
        | Inl err \<Rightarrow> DataError (errorMessage err)]"
    by (simp add: stateAt_posted workerReplies_loadData)
  show "workerReplies e console (posted (stateAt False evs k)) = []"
    by (simp add: stateAt_posted workerReplies_def)
  show "queryFn (map (stateAt False evs) (k # looks))
          = Rejected ''Web Workers are not supported.''"
    by (simp add: stateAt_False checkData_False)
  show "queryFn (map (stateAt True evs) (replicate n 0)) = Pending"
    by (rule queryFn_waits) simp
next
  fix looks1 looks2 :: "nat list"
  assume a: "(\<exists>k \<in> set looks1. 0 < k) \<and> (\<exists>k \<in> set looks2. 0 < k)"
  then have q1: "queryFn (map (stateAt True (ev # evs)) looks1)
                   = checkData (deliver (moduleInit True initialShim) ev)"
    and q2: "queryFn (map (stateAt True (ev # evs)) looks2)
                   = checkData (deliver (moduleInit True initialShim) ev)"
    by (simp_all add: queryFn_settles)
  from q1 q2 show "queryFn (map (stateAt True (ev # evs)) looks1)
           = queryFn (map (stateAt True (ev # evs)) looks2)" by simp
  from q1 show "queryFn (map (stateAt True (ev # evs)) looks1) \<noteq> Pending"
    using checkData_settles[of ev] by simp
  show "queryFn (map (stateAt True (ev # evs)) looks1) =
             (case ev of
                WorkerMessage (DataLoaded payload) \<Rightarrow> Resolved payload
              | WorkerMessage (DataError payload) \<Rightarrow>
                  Rejected (if payload = [] then ''Failed to load data from worker.''
                            else payload)
              | WorkerMessage OtherMsg \<Rightarrow> Rejected ''Failed to load data from worker.''
              | WorkerErrorEvent message \<Rightarrow>
                  Rejected (if message = [] then ''Failed to load data from worker.''
                            else message))"
    unfolding q1 by (rule checkData_event)
next
  fix looks1 :: "nat list"
  assume a: "\<exists>k \<in> set looks1. 0 < k"
  let ?m = "case snd (loadAndProcessData e console) of
              Inr processedData \<Rightarrow> DataLoaded processedData
            | Inl err \<Rightarrow> DataError (errorMessage err)"
  have r: "map WorkerMessage (workerReplies e console (posted (stateAt True [] 0))) @ evs
             = WorkerMessage ?m # evs"
    by (simp add: stateAt_posted workerReplies_loadData)
  have "queryFn (map (stateAt True (WorkerMessage ?m # evs)) looks1)
          = checkData (deliver (moduleInit True initialShim) (WorkerMessage ?m))"
    using a by (rule queryFn_settles)
  also have "\<dots> = (case snd (loadAndProcessData e console) of
              Inr processedData \<Rightarrow> Resolved processedData
            | Inl err \<Rightarrow>
                Rejected (if errorMessage err = [] then ''Failed to load data from worker.''
                          else errorMessage err))"
    unfolding checkData_message by (simp split: sum.splits)
  finally show "queryFn (map (stateAt True
                    (map WorkerMessage (workerReplies e console (posted (stateAt True [] 0)))
                     @ evs)) looks1) =
           (case snd (loadAndProcessData e console) of
              Inr processedData \<Rightarrow> Resolved processedData
            | Inl err \<Rightarrow>
                Rejected (if errorMessage err = [] then ''Failed to load data from worker.''
                          else errorMessage err))"
    unfolding r .
next
  fix k' :: nat
  assume "0 < k'"
  then have "stateAt True (ev # evs) k' = deliver (moduleInit True initialShim) ev"
    by (rule stateAt_pos)
  moreover have "stateAt True [ev] 1 = deliver (moduleInit True initialShim) ev"
    by (rule stateAt_pos) simp
  ultimately show "stateAt True (ev # evs) k' = stateAt True [ev] 1" by simp
qed

text \<open>
  C9, at the example data served at the worker's addresses: the run gives the example
  list; a request that looks before and after the reply and one that looks only after
  a later error event both resolve to that list, and only one message was sent.
\<close>

theorem single_flight_witness:
  "snd (loadAndProcessData deployedEnv []) = Inr exampleFeatures
   \<and> posted (stateAt True [WorkerMessage (DataLoaded exampleFeatures),
                            WorkerErrorEvent ''late''] 2) = [''loadData'']
   \<and> workerReplies deployedEnv [] [''loadData''] = [DataLoaded exampleFeatures]
   \<and> queryFn (map (stateAt True [WorkerMessage (DataLoaded exampleFeatures),
                                  WorkerErrorEvent ''late''])
                [0, 0, 1, 2]) = Resolved exampleFeatures
   \<and> queryFn (map (stateAt True [WorkerMessage (DataLoaded exampleFeatures),
                                  WorkerErrorEvent ''late''])
                [2]) = Resolved exampleFeatures
   \<and> queryFn (map (stateAt True [WorkerErrorEvent ''Script error.'']) [0, 1])
       = Rejected ''Script error.''
   \<and> queryFn (map (stateAt True [WorkerErrorEvent ''Script error.'']) [3])
       = Rejected ''Script error.''"
proof -
  let ?m = "WorkerMessage (DataLoaded exampleFeatures)"
  let ?evs = "[WorkerErrorEvent ''late'']"
  let ?err = "WorkerErrorEvent ''Script error.''"
  have run: "snd (loadAndProcessData deployedEnv []) = Inr exampleFeatures" by code_simp
  have l1: "(\<exists>k \<in> set [0, 0, 1, 2::nat]. 0 < k) \<and> (\<exists>k \<in> set [2::nat]. 0 < k)" by simp
  have l2: "(\<exists>k \<in> set [2::nat]. 0 < k) \<and> (\<exists>k \<in> set [2::nat]. 0 < k)" by simp
  have l3: "(\<exists>k \<in> set [0, 1::nat]. 0 < k) \<and> (\<exists>k \<in> set [3::nat]. 0 < k)" by simp
  have l4: "(\<exists>k \<in> set [3::nat]. 0 < k) \<and> (\<exists>k \<in> set [3::nat]. 0 < k)" by simp
  note s = single_flight[where w = True and evs = "?m # ?evs" and k = 2 and e = deployedEnv
             and console = "[]"]
  note t = single_flight[where evs = ?evs and ev = ?m]
  note u = single_flight[where evs = "[]" and ev = ?err]
  note t1 = s[THEN conjunct1]
  note t2 = s[THEN conjunct2, THEN conjunct1]
  note t6 = t[THEN conjunct2, THEN conjunct2, THEN conjunct2, THEN conjunct2, THEN conjunct2,
              THEN conjunct1, rule_format]
  note u6 = u[THEN conjunct2, THEN conjunct2, THEN conjunct2, THEN conjunct2, THEN conjunct2,
              THEN conjunct1, rule_format]
  from t1 have p: "posted (stateAt True (?m # ?evs) 2) = [''loadData'']" by simp
  from t2 have w: "workerReplies deployedEnv [] [''loadData''] = [DataLoaded exampleFeatures]"
    unfolding p run by simp
  from t6[OF l1, unfolded event.case workerMsg.case] have a: "queryFn (map (stateAt True (?m # ?evs)) [0, 0, 1, 2])
        = Resolved exampleFeatures"
    by blast
  from t6[OF l2, unfolded event.case workerMsg.case] have b: "queryFn (map (stateAt True (?m # ?evs)) [2])
        = Resolved exampleFeatures"
    by blast
  have ne: "(if ''Script error.'' = [] then ''Failed to load data from worker.''
             else ''Script error.'') = ''Script error.''" by simp
  from u6[OF l3, unfolded event.case ne] have c: "queryFn (map (stateAt True [?err]) [0, 1])
        = Rejected ''Script error.''"
    by blast
  from u6[OF l4, unfolded event.case ne] have d: "queryFn (map (stateAt True [?err]) [3])
        = Rejected ''Script error.''"
    by blast
  from run p w a b c d show ?thesis by (simp only: simp_thms)
qed

end
